theory Spec2Isabelle
  imports Main "HOL-Library.Sublist"
begin

section \<open>Python strings\<close>

text \<open>
  A Python \<open>str\<close> is modelled as the HOL \<open>string\<close> of its UTF-8 bytes. The phrases
  the program searches for, splits at and removes are ASCII, and an ASCII byte never
  lies inside the encoding of another character, so \<open>in\<close>, \<open>str.split\<close> and
  \<open>str.replace\<close> are the same on the bytes as on the characters.
\<close>

abbreviation nl :: string where
  "nl \<equiv> [CHR 0x0A]"

text \<open>\<open>sub in s\<close> on strings: some suffix of \<open>s\<close> starts with \<open>sub\<close>.\<close>

fun py_in :: "string \<Rightarrow> string \<Rightarrow> bool" where
  "py_in sub [] = (sub = [])"
| "py_in sub (c # cs) = (prefix sub (c # cs) \<or> py_in sub cs)"

text \<open>
  \<open>s.split(sep)\<close> for a non-empty separator: the pieces between the non-overlapping
  occurrences of \<open>sep\<close>, found from the left. \<open>cur\<close> is the piece being read.
\<close>

fun split_from :: "string \<Rightarrow> string \<Rightarrow> string \<Rightarrow> string list" where
  "split_from sep cur [] = [cur]"
| "split_from sep cur (c # cs) =
     (if prefix sep (c # cs) then cur # split_from sep [] (drop (length sep - 1) cs)
      else split_from sep (cur @ [c]) cs)"

definition py_split :: "string \<Rightarrow> string \<Rightarrow> string list" where
  "py_split s sep = split_from sep [] s"

text \<open>\<open>s.replace(old, new)\<close> for a non-empty \<open>old\<close>.\<close>

fun py_replace :: "string \<Rightarrow> string \<Rightarrow> string \<Rightarrow> string" where
  "py_replace [] old new = []"
| "py_replace (c # cs) old new =
     (if prefix old (c # cs) then new @ py_replace (drop (length old - 1) cs) old new
      else c # py_replace cs old new)"

fun py_join :: "string \<Rightarrow> string list \<Rightarrow> string" where
  "py_join sep [] = []"
| "py_join sep [x] = x"
| "py_join sep (x # y # ys) = x @ sep @ py_join sep (y # ys)"

text \<open>\<open>str(n)\<close> of an integer: its decimal digits, with a sign.\<close>

fun str_nat :: "nat \<Rightarrow> string" where
  "str_nat n =
     (if n < 10 then [''0123456789'' ! n]
      else str_nat (n div 10) @ [''0123456789'' ! (n mod 10)])"

declare str_nat.simps [simp del]

definition str_int :: "int \<Rightarrow> string" where
  "str_int i = (if i < 0 then CHR ''-'' # str_nat (nat (- i)) else str_nat (nat i))"

text \<open>\<open>str(x)\<close> of an optional string: \<open>None\<close> prints as the word None.\<close>

definition str_opt :: "string option \<Rightarrow> string" where
  "str_opt x = (case x of None \<Rightarrow> ''None'' | Some s \<Rightarrow> s)"

section \<open>Exceptions and parsed JSON\<close>

text \<open>
  The exceptions (subclasses of \<open>Exception\<close>) that the code can meet. \<open>OtherException\<close>
  is anything a library call raises, with its message.
\<close>

datatype py_exn =
    KeyError string
  | IndexError
  | TypeError
  | AttributeError
  | ValueError string
  | UnboundLocalError string
  | OtherException string

text \<open>
  What \<open>response.json()\<close> returns. A float is carried as the text that \<open>str\<close> prints
  for it; an object is the association list of its keys.
\<close>

datatype json =
    JNull
  | JBool bool
  | JInt int
  | JFloat string
  | JStr string
  | JArr "json list"
  | JObj "(string \<times> json) list"

text \<open>A computation that may raise: \<open>Inl\<close> is the exception.\<close>

definition try_bind :: "py_exn + 'a \<Rightarrow> ('a \<Rightarrow> py_exn + 'b) \<Rightarrow> py_exn + 'b" where
  "try_bind m f = (case m of Inl e \<Rightarrow> Inl e | Inr x \<Rightarrow> f x)"

text \<open>\<open>d[k]\<close> with a string key.\<close>

fun getitem :: "json \<Rightarrow> string \<Rightarrow> py_exn + json" where
  "getitem (JObj kvs) k = (case map_of kvs k of None \<Rightarrow> Inl (KeyError k) | Some v \<Rightarrow> Inr v)"
| "getitem _ k = Inl TypeError"

text \<open>\<open>k in d\<close> with a string \<open>k\<close>.\<close>

fun json_contains :: "string \<Rightarrow> json \<Rightarrow> py_exn + bool" where
  "json_contains k (JObj kvs) = Inr (map_of kvs k \<noteq> None)"
| "json_contains k (JArr xs) = Inr (JStr k \<in> set xs)"
| "json_contains k (JStr s) = Inr (py_in k s)"
| "json_contains k _ = Inl TypeError"

text \<open>\<open>d.get(k, default)\<close>.\<close>

fun json_get :: "json \<Rightarrow> string \<Rightarrow> json \<Rightarrow> py_exn + json" where
  "json_get (JObj kvs) k d = Inr (case map_of kvs k of None \<Rightarrow> d | Some v \<Rightarrow> v)"
| "json_get _ k d = Inl AttributeError"

section \<open>The outside world\<close>

text \<open>
  The HTTP response of the task provider: its status code and the outcome of
  \<open>response.json()\<close>.
\<close>

record response =
  status_code :: int
  json_result :: "py_exn + json"

text \<open>
  Everything the program does not define itself is a parameter:
  \<^item> \<open>weather_get q\<close>: the outcome of \<open>requests.get\<close> on the weather endpoint with query
    \<open>q\<close>, followed by \<open>response.json()\<close> (the credentials are part of the world);
  \<^item> \<open>todoist_get\<close>: the outcome of \<open>requests.get\<close> on the task endpoint;
  \<^item> \<open>generate_content p\<close>: the outcome of \<open>model.generate_content(p).text\<close>;
  \<^item> \<open>str_exn\<close>: \<open>str(e)\<close> of an exception, whose wording belongs to the interpreter
    and the libraries;
  \<^item> \<open>py_repr\<close>: the text printed for a list or a dict;
  \<^item> \<open>str_lower\<close> and \<open>str_strip\<close>: \<open>str.lower\<close> and \<open>str.strip\<close> on a text that
    has a character outside ASCII, where they follow the Unicode tables of the
    interpreter.
\<close>

record env =
  weather_get :: "string option \<Rightarrow> py_exn + json"
  todoist_get :: "py_exn + response"
  generate_content :: "string \<Rightarrow> py_exn + string"
  str_exn :: "py_exn \<Rightarrow> string"
  py_repr :: "json \<Rightarrow> string"
  str_lower :: "string \<Rightarrow> string"
  str_strip :: "string \<Rightarrow> string"

text \<open>\<open>str(v)\<close> of a parsed JSON value, as an f-string prints it.\<close>

fun py_str :: "env \<Rightarrow> json \<Rightarrow> string" where
  "py_str env JNull = ''None''"
| "py_str env (JBool b) = (if b then ''True'' else ''False'')"
| "py_str env (JInt i) = str_int i"
| "py_str env (JFloat r) = r"
| "py_str env (JStr s) = s"
| "py_str env v = py_repr env v"

section \<open>Letter case and whitespace\<close>

text \<open>A text is ASCII when no byte has its top bit set.\<close>

definition is_ascii :: "string \<Rightarrow> bool" where
  "is_ascii s = list_all (\<lambda>c. \<not> digit7 c) s"

definition lower_char :: "char \<Rightarrow> char" where
  "lower_char c =
     (case map_of (zip ''ABCDEFGHIJKLMNOPQRSTUVWXYZ'' ''abcdefghijklmnopqrstuvwxyz'') c of
        Some l \<Rightarrow> l
      | None \<Rightarrow> c)"

text \<open>
  \<open>s.lower()\<close>: on an ASCII text only the letters A to Z change; any other text is
  lowered by the interpreter.
\<close>

definition py_lower :: "env \<Rightarrow> string \<Rightarrow> string" where
  "py_lower env s = (if is_ascii s then map lower_char s else str_lower env s)"

text \<open>The ASCII characters for which \<open>str.isspace\<close> holds.\<close>

definition ascii_space :: "char \<Rightarrow> bool" where
  "ascii_space c \<longleftrightarrow>
     c \<in> set [CHR 0x09, CHR 0x0A, CHR 0x0B, CHR 0x0C, CHR 0x0D,
                CHR 0x1C, CHR 0x1D, CHR 0x1E, CHR 0x1F, CHR 0x20]"

text \<open>
  \<open>s.strip()\<close>: an ASCII text loses the ASCII whitespace at both ends; any other text
  is stripped by the interpreter, which knows the other whitespace characters.
\<close>

definition py_strip :: "env \<Rightarrow> string \<Rightarrow> string" where
  "py_strip env s =
     (if is_ascii s then rev (dropWhile ascii_space (rev (dropWhile ascii_space s)))
      else str_strip env s)"

section \<open>API integration functions\<close>

abbreviation emoji_weather :: string where
  "emoji_weather \<equiv> [CHR 0xF0, CHR 0x9F, CHR 0x8C, CHR 0xA4, CHR 0xEF, CHR 0xB8, CHR 0x8F]"

abbreviation emoji_cloud :: string where
  "emoji_cloud \<equiv> [CHR 0xE2, CHR 0x98, CHR 0x81, CHR 0xEF, CHR 0xB8, CHR 0x8F]"

abbreviation emoji_thermometer :: string where
  "emoji_thermometer \<equiv> [CHR 0xF0, CHR 0x9F, CHR 0x8C, CHR 0xA1, CHR 0xEF, CHR 0xB8, CHR 0x8F]"

abbreviation degree_sign :: string where
  "degree_sign \<equiv> [CHR 0xC2, CHR 0xB0]"

abbreviation emoji_droplet :: string where
  "emoji_droplet \<equiv> [CHR 0xF0, CHR 0x9F, CHR 0x92, CHR 0xA7]"

abbreviation emoji_wind :: string where
  "emoji_wind \<equiv> [CHR 0xF0, CHR 0x9F, CHR 0x8C, CHR 0xAC, CHR 0xEF, CHR 0xB8, CHR 0x8F]"

abbreviation emoji_sun :: string where
  "emoji_sun \<equiv> [CHR 0xF0, CHR 0x9F, CHR 0x8C, CHR 0x9E]"

text \<open>
  The body of the \<open>try\<close> of \<open>get_weather\<close> once \<open>data\<close> is parsed. The fields of the
  f-string are read from left to right, and the first read that fails raises.
\<close>

definition weather_text :: "env \<Rightarrow> string option \<Rightarrow> json \<Rightarrow> py_exn + string" where
  "weather_text env location data =
     try_bind (json_contains ''error'' data) (\<lambda>has_error.
       if has_error then
         try_bind (getitem data ''error'') (\<lambda>err.
         try_bind (getitem err ''message'') (\<lambda>message.
           Inr (''Could not get weather: '' @ py_str env message)))
       else
         try_bind (getitem data ''current'') (\<lambda>current.
         try_bind (getitem current ''condition'') (\<lambda>condition.
         try_bind (getitem condition ''text'') (\<lambda>text.
         try_bind (getitem current ''temp_c'') (\<lambda>temp_c.
         try_bind (getitem current ''temp_f'') (\<lambda>temp_f.
         try_bind (getitem current ''humidity'') (\<lambda>humidity.
         try_bind (getitem current ''wind_kph'') (\<lambda>wind_kph.
         try_bind (getitem current ''wind_mph'') (\<lambda>wind_mph.
         try_bind (json_get current ''uv'' (JStr ''N/A'')) (\<lambda>uv.
           Inr (emoji_weather @ '' Weather in '' @ str_opt location @ '':'' @ nl @ nl
              @ emoji_cloud @ '' Condition: '' @ py_str env text @ nl
              @ nl @ emoji_thermometer @ '' Temperature: '' @ py_str env temp_c
              @ degree_sign @ ''C ('' @ py_str env temp_f @ degree_sign @ ''F)'' @ nl
              @ nl @ emoji_droplet @ '' Humidity: '' @ py_str env humidity @ ''%'' @ nl
              @ nl @ emoji_wind @ '' Wind: '' @ py_str env wind_kph @ '' km/h (''
              @ py_str env wind_mph @ '' mph)'' @ nl
              @ nl @ emoji_sun @ '' UV Index: '' @ py_str env uv)))))))))))"

definition get_weather :: "env \<Rightarrow> string option \<Rightarrow> string" where
  "get_weather env location =
     (case try_bind (weather_get env location) (weather_text env location) of
        Inl e \<Rightarrow> ''Error getting weather: '' @ str_exn env e
      | Inr text \<Rightarrow> text)"

text \<open>The loop of \<open>get_tasks\<close> over \<open>tasks[:5]\<close>; \<open>task_list\<close> is the list built so far.\<close>

fun collect_tasks :: "env \<Rightarrow> json list \<Rightarrow> string list \<Rightarrow> string list" where
  "collect_tasks env [] task_list = task_list"
| "collect_tasks env (JObj kvs # tasks) task_list =
     (case map_of kvs ''content'' of
        Some content \<Rightarrow> collect_tasks env tasks (task_list @ [''- '' @ py_str env content])
      | None \<Rightarrow> collect_tasks env tasks task_list)"
| "collect_tasks env (_ # tasks) task_list = collect_tasks env tasks task_list"

definition is_ValueError :: "py_exn \<Rightarrow> bool" where
  "is_ValueError e = (case e of ValueError _ \<Rightarrow> True | _ \<Rightarrow> False)"

definition get_tasks :: "env \<Rightarrow> string" where
  "get_tasks env =
     (case todoist_get env of
        Inl e \<Rightarrow> ''Error getting tasks: '' @ str_exn env e
      | Inr response \<Rightarrow>
          if status_code response \<noteq> 200 then
            ''Todoist API error: Status '' @ str_int (status_code response)
          else
            (case json_result response of
               Inl e \<Rightarrow>
                 if is_ValueError e then ''Invalid response format from Todoist''
                 else ''Error getting tasks: '' @ str_exn env e
             | Inr (JArr tasks) \<Rightarrow>
                 (let task_list = collect_tasks env (take 5 tasks) []
                  in if task_list = [] then ''No valid tasks found in your Todoist!''
                     else ''Here are your upcoming tasks:'' @ nl @ py_join nl task_list)
             | Inr _ \<Rightarrow> ''Unexpected response format from Todoist''))"

section \<open>Session state\<close>

text \<open>
  \<open>st.session_state\<close>: the chat history (role and content of each message), the
  dict \<open>user_prefs\<close> (a key may be absent, or present and holding \<open>None\<close>), and the
  attribute \<open>awaiting_preference\<close>, which \<open>del\<close> removes.
\<close>

record session =
  messages :: "(string \<times> string) list"
  user_prefs :: "string \<rightharpoonup> string option"
  awaiting_preference :: "string option"

definition fresh_session :: session where
  "fresh_session =
     \<lparr>messages = [],
      user_prefs = [''name'' \<mapsto> None, ''location'' \<mapsto> None],
      awaiting_preference = Some ''name''\<rparr>"

definition update_preferences :: "session \<Rightarrow> (string \<rightharpoonup> string option) \<Rightarrow> string \<times> session" where
  "update_preferences s updates =
     (''Preferences updated successfully!'',
      s\<lparr>user_prefs := user_prefs s ++ updates, awaiting_preference := None\<rparr>)"

section \<open>Preference setup flow\<close>

abbreviation name_question :: string where
  "name_question \<equiv> ''Welcome! To personalize your experience, may I know your name?''"

definition location_question :: "string option \<Rightarrow> string" where
  "location_question name =
     ''Thanks '' @ str_opt name @ ''! Where are you located? (This helps with weather reports)''"

definition ask_preference_questions :: "session \<Rightarrow> (py_exn + string option) \<times> session" where
  "ask_preference_questions s =
     (case user_prefs s ''name'' of
        None \<Rightarrow> (Inl (KeyError ''name''), s)
      | Some None \<Rightarrow> (Inr (Some name_question), s\<lparr>awaiting_preference := Some ''name''\<rparr>)
      | Some (Some name) \<Rightarrow>
          (case user_prefs s ''location'' of
             None \<Rightarrow> (Inl (KeyError ''location''), s)
           | Some None \<Rightarrow>
               (Inr (Some (location_question (Some name))),
                s\<lparr>awaiting_preference := Some ''location''\<rparr>)
           | Some (Some location) \<Rightarrow> (Inr None, s)))"

section \<open>Quick actions\<close>

text \<open>\<open>d.get(k, default)\<close> on the preference dict.\<close>

definition prefs_get :: "(string \<rightharpoonup> string option) \<Rightarrow> string \<Rightarrow> string option \<Rightarrow> string option" where
  "prefs_get d k dflt = (case d k of None \<Rightarrow> dflt | Some v \<Rightarrow> v)"

definition handle_quick_action :: "env \<Rightarrow> session \<Rightarrow> string \<Rightarrow> string" where
  "handle_quick_action env s action =
     (if action = ''weather'' then
        get_weather env (prefs_get (user_prefs s) ''location'' (Some ''Colombo''))
      else if action = ''tasks'' then get_tasks env
      else ''Unknown action'')"

section \<open>Response generation\<close>

text \<open>\<open>xs[i]\<close> for a list and \<open>i \<ge> 0\<close>.\<close>

definition py_index :: "'a list \<Rightarrow> nat \<Rightarrow> py_exn + 'a" where
  "py_index xs i = (if i < length xs then Inr (xs ! i) else Inl IndexError)"

text \<open>The truth value of an optional string: \<open>None\<close> and the empty string are false.\<close>

definition truthy :: "string option \<Rightarrow> bool" where
  "truthy q = (case q of None \<Rightarrow> False | Some t \<Rightarrow> t \<noteq> [])"

abbreviation help_text :: string where
  "help_text \<equiv>
     ''I can help with:'' @ nl
     @ ''- Weather information (try '' @ [CHR 0x27] @ ''weather [location]'' @ [CHR 0x27] @ '')'' @ nl
     @ ''- Todoist tasks (try '' @ [CHR 0x27] @ ''show my tasks'' @ [CHR 0x27] @ '')'' @ nl
     @ ''- Set preferences (try '' @ [CHR 0x27] @ ''my name is...'' @ [CHR 0x27] @ '', ''
     @ [CHR 0x27] @ ''set location to...'' @ [CHR 0x27] @ '')'' @ nl
     @ ''- Or ask me anything else!''"

text \<open>
  The result is what the call does (\<open>Inl\<close>: it raises; \<open>Inr\<close>: it returns the text) and
  the session state it leaves. In the first branch \<open>response\<close> is \<open>None\<close> while the
  variable is unbound.
\<close>

definition generate_response :: "env \<Rightarrow> session \<Rightarrow> string \<Rightarrow> (py_exn + string) \<times> session" where
  "generate_response env s prompt =
     (case awaiting_preference s of
        Some pref_type \<Rightarrow>
          (let (response, s1) =
                 (if pref_type = ''name'' then
                    (let (r, s') = update_preferences s [''name'' \<mapsto> Some prompt] in (Some r, s'))
                  else if pref_type = ''location'' then
                    (let (r, s') = update_preferences s [''location'' \<mapsto> Some prompt] in (Some r, s'))
                  else (None, s));
               (next_question, s2) = ask_preference_questions s1
           in case next_question of
                Inl e \<Rightarrow> (Inl e, s2)
              | Inr q \<Rightarrow>
                  (case response of
                     None \<Rightarrow> (Inl (UnboundLocalError ''response''), s2)
                   | Some r \<Rightarrow>
                       if truthy q then (Inr (r @ nl @ nl @ str_opt q), s2) else (Inr r, s2)))
      | None \<Rightarrow>
          if py_in ''my name is'' (py_lower env prompt) then
            (case py_index (py_split (py_lower env prompt) ''my name is'') 1 of
               Inl e \<Rightarrow> (Inl e, s)
             | Inr piece \<Rightarrow>
                 (let name = py_strip env piece;
                      (r, s') = update_preferences s [''name'' \<mapsto> Some name]
                  in (Inr r, s')))
          else if py_in ''set location to'' (py_lower env prompt) then
            (case py_index (py_split (py_lower env prompt) ''set location to'') 1 of
               Inl e \<Rightarrow> (Inl e, s)
             | Inr piece \<Rightarrow>
                 (let location = py_strip env piece;
                      (r, s') = update_preferences s [''location'' \<mapsto> Some location]
                  in (Inr r, s')))
          else
            (let (preference_question, s1) = ask_preference_questions s
             in case preference_question of
                  Inl e \<Rightarrow> (Inl e, s1)
                | Inr q \<Rightarrow>
                    if truthy q then (Inr (str_opt q), s1)
                    else if py_in ''weather'' (py_lower env prompt) then
                      (let location = py_strip env (py_replace (py_lower env prompt) ''weather'' [])
                       in if location = [] then
                            (case user_prefs s1 ''location'' of
                               None \<Rightarrow> (Inl (KeyError ''location''), s1)
                             | Some stored \<Rightarrow> (Inr (get_weather env stored), s1))
                          else (Inr (get_weather env (Some location)), s1))
                    else if py_in ''tasks'' (py_lower env prompt) \<or> py_in ''todo'' (py_lower env prompt) then
                      (Inr (get_tasks env), s1)
                    else if py_in ''who am i'' (py_lower env prompt) then
                      (case user_prefs s1 ''name'' of
                         None \<Rightarrow> (Inl (KeyError ''name''), s1)
                       | Some name \<Rightarrow>
                           (case user_prefs s1 ''location'' of
                              None \<Rightarrow> (Inl (KeyError ''location''), s1)
                            | Some location \<Rightarrow>
                                (Inr (''You are '' @ str_opt name @ '', located in ''
                                      @ str_opt location @ ''. ''), s1)))
                    else if py_in ''help'' (py_lower env prompt) then (Inr help_text, s1)
                    else
                      (case generate_content env prompt of
                         Inl e \<Rightarrow> (Inr (''Sorry, I encountered an error: '' @ str_exn env e), s1)
                       | Inr text \<Rightarrow> (Inr text, s1))))"

section \<open>Sessions of the specification\<close>

text \<open>
  The specification's conversation state has two preference fields, each unset or a
  text, and a cursor that is absent or names one of them. In the program both keys are
  in the dict and the attribute, when present, is one of the two key names.
\<close>

definition valid_session :: "session \<Rightarrow> bool" where
  "valid_session s \<longleftrightarrow>
     user_prefs s ''name'' \<noteq> None \<and> user_prefs s ''location'' \<noteq> None
     \<and> awaiting_preference s \<in> {None, Some ''name'', Some ''location''}"

text \<open>A field is unset when its key holds \<open>None\<close>, and set when it holds a text.\<close>

definition unset :: "session \<Rightarrow> string \<Rightarrow> bool" where
  "unset s k \<longleftrightarrow> user_prefs s k = Some None"

definition is_set :: "session \<Rightarrow> string \<Rightarrow> bool" where
  "is_set s k \<longleftrightarrow> (case user_prefs s k of Some (Some v) \<Rightarrow> True | _ \<Rightarrow> False)"

text \<open>
  The states the program can be in: the fresh session, and what the router
  (\<open>generate_response\<close>) and the host leave. The host calls
  \<open>ask_preference_questions\<close> for the first message, and it alone appends to and
  clears the chat history.
\<close>

inductive reachable :: "session \<Rightarrow> bool" where
  fresh: "reachable fresh_session"
| respond: "reachable s \<Longrightarrow> reachable (snd (generate_response env s prompt))"
| ask: "reachable s \<Longrightarrow> reachable (snd (ask_preference_questions s))"
| history: "reachable s \<Longrightarrow> reachable (s\<lparr>messages := ms\<rparr>)"

section \<open>The dispatch order of the specification\<close>

datatype branch = Pending | Manual | Guard | Weather | Tasks | WhoAmI | Help | Fallback

definition dispatch_order :: "branch list" where
  "dispatch_order = [Pending, Manual, Guard, Weather, Tasks, WhoAmI, Help, Fallback]"

text \<open>When a branch matches, by case-insensitive substring matching on the utterance.\<close>

fun branch_matches :: "env \<Rightarrow> session \<Rightarrow> string \<Rightarrow> branch \<Rightarrow> bool" where
  "branch_matches env s p Pending = (awaiting_preference s \<noteq> None)"
| "branch_matches env s p Manual =
     (py_in ''my name is'' (py_lower env p) \<or> py_in ''set location to'' (py_lower env p))"
| "branch_matches env s p Guard = (unset s ''name'' \<or> unset s ''location'')"
| "branch_matches env s p Weather = py_in ''weather'' (py_lower env p)"
| "branch_matches env s p Tasks = (py_in ''tasks'' (py_lower env p) \<or> py_in ''todo'' (py_lower env p))"
| "branch_matches env s p WhoAmI = py_in ''who am i'' (py_lower env p)"
| "branch_matches env s p Help = py_in ''help'' (py_lower env p)"
| "branch_matches env s p Fallback = True"

text \<open>The first branch of the dispatch order that matches.\<close>

definition route :: "env \<Rightarrow> session \<Rightarrow> string \<Rightarrow> branch" where
  "route env s p = (case find (branch_matches env s p) dispatch_order of Some b \<Rightarrow> b | None \<Rightarrow> Fallback)"

text \<open>The next pending question: the first unset field, name before location.\<close>

definition next_unset :: "session \<Rightarrow> string option" where
  "next_unset s =
     (if unset s ''name'' then Some ''name''
      else if unset s ''location'' then Some ''location''
      else None)"

definition question_text :: "session \<Rightarrow> string \<Rightarrow> string" where
  "question_text s k =
     (if k = ''name'' then name_question
      else location_question (prefs_get (user_prefs s) ''name'' None))"

text \<open>The state once the pending question is answered with the utterance.\<close>

definition store_answer :: "session \<Rightarrow> string \<Rightarrow> session" where
  "store_answer s p =
     (case awaiting_preference s of
        None \<Rightarrow> s
      | Some k \<Rightarrow> s\<lparr>user_prefs := (user_prefs s)(k \<mapsto> Some p)\<rparr>)"

text \<open>The text that a manual assertion stores: what follows the phrase, trimmed.\<close>

definition asserted_text :: "env \<Rightarrow> string \<Rightarrow> string \<Rightarrow> string" where
  "asserted_text env phrase p =
     py_strip env (case py_split (py_lower env p) phrase of _ # piece # _ \<Rightarrow> piece | _ \<Rightarrow> [])"

text \<open>The location of a weather request: the override text, or else the stored one.\<close>

definition weather_location :: "env \<Rightarrow> session \<Rightarrow> string \<Rightarrow> string option" where
  "weather_location env s p =
     (let location = py_strip env (py_replace (py_lower env p) ''weather'' [])
      in if location = [] then prefs_get (user_prefs s) ''location'' None else Some location)"

text \<open>What each branch does, taken alone.\<close>

fun branch_handler :: "env \<Rightarrow> session \<Rightarrow> string \<Rightarrow> branch \<Rightarrow> (py_exn + string) \<times> session" where
  "branch_handler env s p Pending =
     (let s' = store_answer s p
      in (Inr (case next_unset s' of
                 None \<Rightarrow> ''Preferences updated successfully!''
               | Some k \<Rightarrow> ''Preferences updated successfully!'' @ nl @ nl @ question_text s' k),
          s'\<lparr>awaiting_preference := next_unset s'\<rparr>))"
| "branch_handler env s p Manual =
     (Inr ''Preferences updated successfully!'',
      if py_in ''my name is'' (py_lower env p)
      then s\<lparr>user_prefs := (user_prefs s)(''name'' \<mapsto> Some (asserted_text env ''my name is'' p))\<rparr>
      else s\<lparr>user_prefs :=
               (user_prefs s)(''location'' \<mapsto> Some (asserted_text env ''set location to'' p))\<rparr>)"
| "branch_handler env s p Guard =
     (Inr (case next_unset s of None \<Rightarrow> [] | Some k \<Rightarrow> question_text s k),
      s\<lparr>awaiting_preference := next_unset s\<rparr>)"
| "branch_handler env s p Weather = (Inr (get_weather env (weather_location env s p)), s)"
| "branch_handler env s p Tasks = (Inr (get_tasks env), s)"
| "branch_handler env s p WhoAmI =
     (Inr (''You are '' @ str_opt (prefs_get (user_prefs s) ''name'' None) @ '', located in ''
           @ str_opt (prefs_get (user_prefs s) ''location'' None) @ ''. ''), s)"
| "branch_handler env s p Help = (Inr help_text, s)"
| "branch_handler env s p Fallback =
     (case generate_content env p of
        Inl e \<Rightarrow> (Inr (''Sorry, I encountered an error: '' @ str_exn env e), s)
      | Inr text \<Rightarrow> (Inr text, s))"

text \<open>Tasks as the specification keeps them: the \<open>content\<close> of an entry that has one.\<close>

definition task_content :: "json \<Rightarrow> json option" where
  "task_content t = (case t of JObj kvs \<Rightarrow> map_of kvs ''content'' | _ \<Rightarrow> None)"

definition kept_tasks :: "json list \<Rightarrow> json list" where
  "kept_tasks tasks = List.map_filter task_content (take 5 tasks)"

section \<open>Sample data\<close>

definition sunny_payload :: json where
  "sunny_payload =
     JObj [(''current'',
            JObj [(''condition'', JObj [(''text'', JStr ''Sunny'')]),
                  (''temp_c'', JInt 25), (''temp_f'', JInt 77), (''humidity'', JInt 40),
                  (''wind_kph'', JInt 10), (''wind_mph'', JFloat ''6.2''), (''uv'', JInt 5)])]"

definition no_uv_payload :: json where
  "no_uv_payload =
     JObj [(''current'',
            JObj [(''condition'', JObj [(''text'', JStr ''Mist'')]),
                  (''temp_c'', JInt 8), (''temp_f'', JFloat ''46.4''), (''humidity'', JInt 93),
                  (''wind_kph'', JFloat ''3.6''), (''wind_mph'', JFloat ''2.2'')])]"

definition error_payload :: json where
  "error_payload =
     JObj [(''error'', JObj [(''code'', JInt 1006),
                             (''message'', JStr ''No matching location found.'')])]"

definition sample_tasks :: json where
  "sample_tasks =
     JArr [JObj [(''content'', JStr ''Buy milk'')], JObj [(''content'', JStr ''Call Bob'')],
           JObj [(''notcontent'', JStr ''x'')]]"

text \<open>
  A world where the weather provider knows every place but Atlantis, reports no UV
  index for Oslo, times out on Nowhere and sends an empty object for Limbo and
  \<open>null\<close> for Void; the task provider returns the three sample entries, and the
  generative model is out of quota. The inputs of the samples are ASCII, so the
  Unicode tables are not consulted.
\<close>

definition sample_env :: env where
  "sample_env =
     \<lparr>weather_get = (\<lambda>q. if q = Some ''atlantis'' then Inr error_payload
                          else if q = Some ''oslo'' then Inr no_uv_payload
                          else if q = Some ''nowhere'' then Inl (OtherException ''timed out'')
                          else if q = Some ''limbo'' then Inr (JObj [])
                          else if q = Some ''void'' then Inr JNull
                          else Inr sunny_payload),
      todoist_get = Inr \<lparr>status_code = 200, json_result = Inr sample_tasks\<rparr>,
      generate_content = (\<lambda>p. Inl (OtherException ''quota exceeded'')),
      str_exn = (\<lambda>e. case e of OtherException m \<Rightarrow> m
                         | ValueError m \<Rightarrow> m
                         | KeyError k \<Rightarrow> [CHR 0x27] @ k @ [CHR 0x27]
                         | _ \<Rightarrow> ''unsupported''),
      py_repr = (\<lambda>v. ''...''),
      str_lower = (\<lambda>s. s),
      str_strip = (\<lambda>s. s)\<rparr>"

definition offline_env :: env where
  "offline_env =
     sample_env\<lparr>todoist_get := Inl (OtherException ''connection refused'')\<rparr>"

definition empty_tasks_env :: env where
  "empty_tasks_env =
     sample_env\<lparr>todoist_get := Inr \<lparr>status_code = 200, json_result = Inr (JArr [])\<rparr>\<rparr>"

text \<open>Worlds where the task provider fails in the four other ways.\<close>

definition busy_env :: env where
  "busy_env =
     sample_env\<lparr>todoist_get :=
       Inr \<lparr>status_code = 503, json_result = Inl (ValueError ''no body'')\<rparr>\<rparr>"

definition garbled_env :: env where
  "garbled_env =
     sample_env\<lparr>todoist_get :=
       Inr \<lparr>status_code = 200, json_result = Inl (ValueError ''Expecting value'')\<rparr>\<rparr>"

definition broken_env :: env where
  "broken_env =
     sample_env\<lparr>todoist_get :=
       Inr \<lparr>status_code = 200, json_result = Inl (OtherException ''decode failed'')\<rparr>\<rparr>"

definition wrapped_env :: env where
  "wrapped_env =
     sample_env\<lparr>todoist_get :=
       Inr \<lparr>status_code = 200, json_result = Inr (JObj [(''tasks'', JArr [])])\<rparr>\<rparr>"

text \<open>The session after the setup flow was answered with "Bob" and "Colombo".\<close>

definition colombo_session :: session where
  "colombo_session =
     \<lparr>messages = [],
      user_prefs = [''name'' \<mapsto> Some ''Bob'', ''location'' \<mapsto> Some ''Colombo''],
      awaiting_preference = None\<rparr>"

section \<open>The three stages of the setup flow\<close>

definition flow_inv :: "session \<Rightarrow> bool" where
  "flow_inv s \<longleftrightarrow>
     awaiting_preference s = Some ''name'' \<and> unset s ''name'' \<and> unset s ''location''
     \<or> awaiting_preference s = Some ''location'' \<and> is_set s ''name'' \<and> unset s ''location''
     \<or> awaiting_preference s = None \<and> is_set s ''name'' \<and> is_set s ''location''"

section \<open>Splitting at a phrase that occurs\<close>

lemma split_from_nonempty: "split_from sep cur s \<noteq> []"
  by (induction s arbitrary: cur) auto

lemma split_from_two: "py_in sep s \<Longrightarrow> sep \<noteq> [] \<Longrightarrow> \<exists>a b rest. split_from sep cur s = a # b # rest"
proof (induction s arbitrary: cur)
  case Nil
  then show ?case by simp
next
  case (Cons c cs)
  show ?case
  proof (cases "prefix sep (c # cs)")
    case True
    obtain b rest where "split_from sep [] (drop (length sep - 1) cs) = b # rest"
      using split_from_nonempty by (meson list.exhaust)
    with True show ?thesis by simp
  next
    case False
    with Cons.prems have "py_in sep cs" by simp
    from Cons.IH [OF this Cons.prems(2)] False show ?thesis by simp
  qed
qed

lemma py_index_split:
  assumes "py_in sep s" and "sep \<noteq> []"
  shows "py_index (py_split s sep) 1 =
           Inr (case py_split s sep of _ # piece # _ \<Rightarrow> piece | _ \<Rightarrow> [])"
proof -
  obtain a b rest where "split_from sep [] s = a # b # rest"
    using split_from_two [OF assms] by blast
  then show ?thesis by (simp add: py_index_def py_split_def)
qed

section \<open>The router follows the dispatch order\<close>

lemma ask_valid:
  "user_prefs s ''name'' \<noteq> None \<Longrightarrow> user_prefs s ''location'' \<noteq> None \<Longrightarrow>
   ask_preference_questions s =
     (Inr (case next_unset s of None \<Rightarrow> None | Some k \<Rightarrow> Some (question_text s k)),
      case next_unset s of None \<Rightarrow> s | Some k \<Rightarrow> s\<lparr>awaiting_preference := Some k\<rparr>)"
  by (auto simp: ask_preference_questions_def next_unset_def unset_def question_text_def
        prefs_get_def split: option.splits)

lemma question_text_nonempty: "question_text s k \<noteq> []"
  by (simp add: question_text_def location_question_def)

lemma dispatch_pending:
  assumes "valid_session s" and "awaiting_preference s = Some k"
  shows "generate_response env s p = branch_handler env s p Pending"
proof -
  from assms have k: "k = ''name'' \<or> k = ''location''"
    by (auto simp: valid_session_def)
  let ?s1 = "s\<lparr>user_prefs := (user_prefs s)(k \<mapsto> Some p), awaiting_preference := None\<rparr>"
  have dom1: "user_prefs ?s1 ''name'' \<noteq> None" "user_prefs ?s1 ''location'' \<noteq> None"
    using assms(1) by (auto simp: valid_session_def)
  have nu: "next_unset ?s1 = next_unset (store_answer s p)"
    by (simp add: next_unset_def unset_def store_answer_def assms(2))
  have qt: "question_text ?s1 = question_text (store_answer s p)"
    by (simp add: question_text_def store_answer_def assms(2) fun_eq_iff)
  from k show ?thesis
    using ask_valid [OF dom1]
    by (auto simp: generate_response_def assms(2) update_preferences_def truthy_def
          question_text_nonempty str_opt_def store_answer_def nu qt Let_def
          split: option.splits)
qed


lemma clear_absent_cursor:
  "awaiting_preference s = None \<Longrightarrow> s\<lparr>awaiting_preference := None\<rparr> = s"
  by (cases s) simp

lemma dispatch_manual:
  assumes "awaiting_preference s = None"
    and "py_in ''my name is'' (py_lower env p) \<or> py_in ''set location to'' (py_lower env p)"
  shows "generate_response env s p = branch_handler env s p Manual"
proof (cases "py_in ''my name is'' (py_lower env p)")
  case True
  then show ?thesis
    using assms(1) py_index_split [of "''my name is''" "py_lower env p"]
    by (simp add: generate_response_def update_preferences_def asserted_text_def
          clear_absent_cursor)
next
  case False
  with assms(2) have "py_in ''set location to'' (py_lower env p)" by simp
  with False show ?thesis
    using assms(1) py_index_split [of "''set location to''" "py_lower env p"]
    by (simp add: generate_response_def update_preferences_def asserted_text_def
          clear_absent_cursor)
qed

lemma dispatch_guard:
  assumes "valid_session s" and "awaiting_preference s = None"
    and "\<not> py_in ''my name is'' (py_lower env p)" and "\<not> py_in ''set location to'' (py_lower env p)"
    and "next_unset s = Some k"
  shows "generate_response env s p = branch_handler env s p Guard"
proof -
  from assms(1) have dom: "user_prefs s ''name'' \<noteq> None" "user_prefs s ''location'' \<noteq> None"
    by (auto simp: valid_session_def)
  show ?thesis
    using ask_valid [OF dom] assms(2-5)
    by (simp add: generate_response_def truthy_def question_text_nonempty str_opt_def)
qed

lemma dispatch_commands:
  assumes "valid_session s" and "awaiting_preference s = None"
    and "\<not> py_in ''my name is'' (py_lower env p)" and "\<not> py_in ''set location to'' (py_lower env p)"
    and "next_unset s = None"
  shows "generate_response env s p =
           branch_handler env s p
             (if py_in ''weather'' (py_lower env p) then Weather
              else if py_in ''tasks'' (py_lower env p) \<or> py_in ''todo'' (py_lower env p) then Tasks
              else if py_in ''who am i'' (py_lower env p) then WhoAmI
              else if py_in ''help'' (py_lower env p) then Help
              else Fallback)"
proof -
  from assms(1) have dom: "user_prefs s ''name'' \<noteq> None" "user_prefs s ''location'' \<noteq> None"
    by (auto simp: valid_session_def)
  then obtain n l where nl: "user_prefs s ''name'' = Some n" "user_prefs s ''location'' = Some l"
    by auto
  have ask: "ask_preference_questions s = (Inr None, s)"
    using ask_valid [OF dom] assms(5) by simp
  show ?thesis
    using assms(2-4)
    by (simp add: generate_response_def ask truthy_def weather_location_def prefs_get_def nl
          Let_def split: sum.splits)
qed

lemma next_unset_guard: "(next_unset s \<noteq> None) = (unset s ''name'' \<or> unset s ''location'')"
  by (simp add: next_unset_def)

lemma generate_response_dispatch:
  assumes "valid_session s"
  shows "generate_response env s p = branch_handler env s p (route env s p)"
proof (cases "awaiting_preference s")
  case (Some k)
  then have "route env s p = Pending"
    by (simp add: route_def dispatch_order_def)
  with dispatch_pending [OF assms Some] show ?thesis by simp
next
  case None
  show ?thesis
  proof (cases "py_in ''my name is'' (py_lower env p) \<or> py_in ''set location to'' (py_lower env p)")
    case True
    with None have "route env s p = Manual"
      by (simp add: route_def dispatch_order_def)
    with dispatch_manual [OF None True] show ?thesis by simp
  next
    case False
    show ?thesis
    proof (cases "next_unset s")
      case (Some k)
      with None False next_unset_guard [of s] have "route env s p = Guard"
        by (simp add: route_def dispatch_order_def)
      with dispatch_guard [OF assms None _ _ Some] False show ?thesis by simp
    next
      case nu: None
      with None False next_unset_guard [of s] have
        "route env s p =
           (if py_in ''weather'' (py_lower env p) then Weather
            else if py_in ''tasks'' (py_lower env p) \<or> py_in ''todo'' (py_lower env p) then Tasks
            else if py_in ''who am i'' (py_lower env p) then WhoAmI
            else if py_in ''help'' (py_lower env p) then Help
            else Fallback)"
        by (simp add: route_def dispatch_order_def)
      with dispatch_commands [OF assms None _ _ nu] False show ?thesis by simp
    qed
  qed
qed

section \<open>Evaluating the model on sample inputs\<close>

lemmas string_simps = is_ascii_def py_lower_def lower_char_def py_strip_def ascii_space_def py_split_def
  py_index_def str_opt_def

lemmas session_simps = valid_session_def unset_def is_set_def next_unset_def question_text_def
  location_question_def prefs_get_def store_answer_def colombo_session_def
  fresh_session_def

section \<open>A session the program reaches\<close>

lemma colombo_reachable: "reachable colombo_session"
proof -
  let ?s1 = "snd (generate_response sample_env fresh_session ''Bob'')"
  have "snd (generate_response sample_env ?s1 ''Colombo'') = colombo_session"
    by (simp add: generate_response_def update_preferences_def ask_preference_questions_def
          truthy_def location_question_def fresh_session_def colombo_session_def fun_upd_twist)
  moreover have "reachable (snd (generate_response sample_env ?s1 ''Colombo''))"
    by (intro reachable.respond reachable.fresh)
  ultimately show ?thesis by simp
qed

lemma route_weather:
  assumes "awaiting_preference s = None"
    and "user_prefs s ''name'' = Some (Some n)" and "user_prefs s ''location'' = Some (Some l)"
    and "\<not> py_in ''my name is'' (py_lower env p)"
    and "\<not> py_in ''set location to'' (py_lower env p)"
    and "py_in ''weather'' (py_lower env p)"
  shows "route env s p = Weather"
    and "generate_response env s p = (Inr (get_weather env (weather_location env s p)), s)"
proof -
  from assms(1-3) have v: "valid_session s"
    by (simp add: valid_session_def)
  from assms show "route env s p = Weather"
    by (simp add: route_def dispatch_order_def unset_def)
  with generate_response_dispatch [OF v]
  show "generate_response env s p = (Inr (get_weather env (weather_location env s p)), s)"
    by simp
qed

section \<open>Dispatch order\<close>

text \<open>
  C1 says that, with both preferences set and no pending question, an utterance
  containing both "weather" and "help" resolves as weather. The utterance
  "my name is weather help" contains both and is a manual assertion, which comes
  first in the order: it sets the name to "weather help" and no weather is looked up.
\<close>

theorem manual_phrase_first_counterexample:
  "reachable colombo_session
   \<and> awaiting_preference colombo_session = None
   \<and> is_set colombo_session ''name'' \<and> is_set colombo_session ''location''
   \<and> py_in ''weather'' (py_lower sample_env ''my name is weather help'')
   \<and> py_in ''help'' (py_lower sample_env ''my name is weather help'')
   \<and> generate_response sample_env colombo_session ''my name is weather help'' =
       (Inr ''Preferences updated successfully!'',
        colombo_session\<lparr>user_prefs :=
          (user_prefs colombo_session)(''name'' \<mapsto> Some ''weather help'')\<rparr>)
   \<and> Inr ''Preferences updated successfully!'' \<noteq>
       (Inr (get_weather sample_env
               (weather_location sample_env colombo_session ''my name is weather help''))
        :: py_exn + string)"
proof -
  have "generate_response sample_env colombo_session ''my name is weather help'' =
       (Inr ''Preferences updated successfully!'',
        colombo_session\<lparr>user_prefs :=
          (user_prefs colombo_session)(''name'' \<mapsto> Some ''weather help'')\<rparr>)"
    by (simp add: generate_response_def update_preferences_def colombo_session_def string_simps)
  moreover have "Inr ''Preferences updated successfully!'' \<noteq>
       (Inr (get_weather sample_env
               (weather_location sample_env colombo_session ''my name is weather help''))
        :: py_exn + string)"
    by (simp add: weather_location_def string_simps get_weather_def sample_env_def
          weather_text_def try_bind_def sunny_payload_def)
  ultimately show ?thesis
    using colombo_reachable by (simp add: session_simps string_simps)
qed

text \<open>
  C1, amended. For every conversation state and utterance the router takes the first
  branch that matches in the order pending preference, manual assertion,
  incomplete-preferences guard, weather, tasks or todo, who am i, help, generative
  fallback, and does what that branch alone does. In particular, with both preferences
  set and no pending question, an utterance that contains both "weather" and "help"
  and neither "my name is" nor "set location to" gets the weather report.
\<close>

theorem dispatch_first_match:
  assumes "valid_session s"
  shows "(\<exists>b. find (branch_matches env s p)
               [Pending, Manual, Guard, Weather, Tasks, WhoAmI, Help, Fallback] = Some b
            \<and> generate_response env s p = branch_handler env s p b)
       \<and> (awaiting_preference s = None \<and> is_set s ''name'' \<and> is_set s ''location''
            \<and> \<not> py_in ''my name is'' (py_lower env p)
            \<and> \<not> py_in ''set location to'' (py_lower env p)
            \<and> py_in ''weather'' (py_lower env p) \<and> py_in ''help'' (py_lower env p)
          \<longrightarrow> generate_response env s p =
                (Inr (get_weather env (weather_location env s p)), s))"
proof -
  have "find (branch_matches env s p) dispatch_order = Some (route env s p)"
    by (simp add: route_def dispatch_order_def)
  then have first: "\<exists>b. find (branch_matches env s p)
               [Pending, Manual, Guard, Weather, Tasks, WhoAmI, Help, Fallback] = Some b
            \<and> generate_response env s p = branch_handler env s p b"
    using generate_response_dispatch [OF assms] by (simp add: dispatch_order_def)
  have "generate_response env s p = (Inr (get_weather env (weather_location env s p)), s)"
    if "awaiting_preference s = None" "is_set s ''name''" "is_set s ''location''"
      "\<not> py_in ''my name is'' (py_lower env p)" "\<not> py_in ''set location to'' (py_lower env p)"
      "py_in ''weather'' (py_lower env p)"
  proof -
    from that have "route env s p = Weather"
      by (auto simp: route_def dispatch_order_def unset_def is_set_def split: option.splits)
    with generate_response_dispatch [OF assms] show ?thesis by simp
  qed
  with first show ?thesis by blast
qed

theorem dispatch_first_match_witness:
  "valid_session colombo_session
   \<and> generate_response sample_env colombo_session ''Weather help'' =
       (Inr (get_weather sample_env (Some ''help'')), colombo_session)"
proof -
  have v: "valid_session colombo_session"
    by (simp add: session_simps)
  have "weather_location sample_env colombo_session ''Weather help'' = Some ''help''"
    by (simp add: weather_location_def string_simps)
  with v dispatch_first_match [OF v, of sample_env "''Weather help''"] show ?thesis
    by (simp add: session_simps string_simps)
qed

section \<open>Answering a pending question\<close>

text \<open>
  C7. With a question pending, the router stores the whole utterance, unmodified, in the
  field the cursor names, moves the cursor to the next unset field (or removes it when
  none is left), and returns the acknowledgment followed by the next question when
  there is one, else the acknowledgment alone.
\<close>

theorem pending_answer_stored:
  assumes "valid_session s" and "awaiting_preference s = Some k"
  shows "generate_response env s p =
           (let s' = s\<lparr>user_prefs := (user_prefs s)(k \<mapsto> Some p)\<rparr>
            in (Inr (''Preferences updated successfully!''
                     @ (case next_unset s' of None \<Rightarrow> [] | Some f \<Rightarrow> nl @ nl @ question_text s' f)),
                s'\<lparr>awaiting_preference := next_unset s'\<rparr>))"
proof -
  have "route env s p = Pending"
    using assms(2) by (simp add: route_def dispatch_order_def)
  with generate_response_dispatch [OF assms(1)] show ?thesis
    by (simp add: store_answer_def assms(2) Let_def split: option.splits)
qed

theorem pending_answer_stored_witness:
  "valid_session fresh_session \<and> awaiting_preference fresh_session = Some ''name''
   \<and> generate_response sample_env fresh_session '' Bob  '' =
       (Inr (''Preferences updated successfully!'' @ nl @ nl
             @ ''Thanks  Bob  ! Where are you located? (This helps with weather reports)''),
        \<lparr>messages = [],
         user_prefs = [''name'' \<mapsto> Some '' Bob  '', ''location'' \<mapsto> None],
         awaiting_preference = Some ''location''\<rparr>)"
proof -
  have v: "valid_session fresh_session" and a: "awaiting_preference fresh_session = Some ''name''"
    by (simp_all add: session_simps)
  from v a pending_answer_stored [OF v a, of sample_env "'' Bob  ''"] show ?thesis
    by (simp add: session_simps string_simps Let_def fun_upd_twist)
qed

section \<open>The cursor and the fields\<close>

lemma flow_inv_valid: "flow_inv s \<Longrightarrow> valid_session s"
  by (auto simp: flow_inv_def valid_session_def unset_def is_set_def split: option.splits)

lemma commands_keep_state:
  "b \<in> {Weather, Tasks, WhoAmI, Help, Fallback} \<Longrightarrow> snd (branch_handler env s p b) = s"
  by (auto split: sum.splits)

lemma flow_inv_respond:
  assumes "flow_inv s"
  shows "flow_inv (snd (generate_response env s p))"
proof -
  note v = flow_inv_valid [OF assms]
  consider (name) "awaiting_preference s = Some ''name''" "unset s ''name''" "unset s ''location''"
    | (location) "awaiting_preference s = Some ''location''" "is_set s ''name''" "unset s ''location''"
    | (complete) "awaiting_preference s = None" "is_set s ''name''" "is_set s ''location''"
    using assms by (auto simp: flow_inv_def)
  then show ?thesis
  proof cases
    case name
    then show ?thesis
      by (simp add: dispatch_pending [OF v name(1)] flow_inv_def store_answer_def
            next_unset_def unset_def is_set_def Let_def)
  next
    case location
    then show ?thesis
      by (simp add: dispatch_pending [OF v location(1)] flow_inv_def store_answer_def
            next_unset_def unset_def is_set_def Let_def split: option.splits)
  next
    case complete
    show ?thesis
    proof (cases "py_in ''my name is'' (py_lower env p) \<or> py_in ''set location to'' (py_lower env p)")
      case True
      from complete show ?thesis
        by (simp add: dispatch_manual [OF complete(1) True] flow_inv_def unset_def is_set_def
              split: option.splits)
    next
      case False
      from complete have nu: "next_unset s = None"
        by (auto simp: next_unset_def unset_def is_set_def split: option.splits)
      from False have "generate_response env s p =
           branch_handler env s p
             (if py_in ''weather'' (py_lower env p) then Weather
              else if py_in ''tasks'' (py_lower env p) \<or> py_in ''todo'' (py_lower env p) then Tasks
              else if py_in ''who am i'' (py_lower env p) then WhoAmI
              else if py_in ''help'' (py_lower env p) then Help
              else Fallback)"
        using dispatch_commands [OF v complete(1) _ _ nu] by simp
      then have "snd (generate_response env s p) = s"
        by (simp add: commands_keep_state)
      with assms show ?thesis by simp
    qed
  qed
qed

lemma flow_inv_ask: "flow_inv s \<Longrightarrow> flow_inv (snd (ask_preference_questions s))"
  by (auto simp: flow_inv_def ask_preference_questions_def unset_def is_set_def
        split: option.splits)

lemma reachable_flow_inv: "reachable s \<Longrightarrow> flow_inv s"
proof (induction rule: reachable.induct)
  case fresh
  show ?case by (simp add: flow_inv_def fresh_session_def unset_def)
next
  case (respond s env prompt)
  then show ?case by (simp add: flow_inv_respond)
next
  case (ask s)
  then show ?case by (simp add: flow_inv_ask)
next
  case (history s ms)
  then show ?case by (simp add: flow_inv_def unset_def is_set_def)
qed

text \<open>
  C2. In every state reachable from the fresh session, the cursor is "name" only while
  the name is unset, "location" only while the name is set and the location is unset,
  and absent exactly when both are set; no other combination of cursor and fields
  occurs.
\<close>

theorem cursor_tracks_fields:
  "reachable s \<Longrightarrow>
     awaiting_preference s = Some ''name'' \<and> unset s ''name'' \<and> unset s ''location''
     \<or> awaiting_preference s = Some ''location'' \<and> is_set s ''name'' \<and> unset s ''location''
     \<or> awaiting_preference s = None \<and> is_set s ''name'' \<and> is_set s ''location''"
  using reachable_flow_inv [of s] by (simp add: flow_inv_def)

theorem cursor_tracks_fields_witness:
  "reachable (snd (generate_response sample_env fresh_session ''Bob''))
   \<and> awaiting_preference (snd (generate_response sample_env fresh_session ''Bob'')) = Some ''location''
   \<and> is_set (snd (generate_response sample_env fresh_session ''Bob'')) ''name''
   \<and> unset (snd (generate_response sample_env fresh_session ''Bob'')) ''location''"
proof -
  have r: "reachable (snd (generate_response sample_env fresh_session ''Bob''))"
    by (rule reachable.respond [OF reachable.fresh])
  have a: "awaiting_preference (snd (generate_response sample_env fresh_session ''Bob'')) = Some ''location''"
    by (simp add: generate_response_def update_preferences_def ask_preference_questions_def
          truthy_def location_question_def fresh_session_def)
  from r a cursor_tracks_fields [OF r] show ?thesis by simp
qed

section \<open>The weather quick action\<close>

text \<open>
  C10. In every reachable state the location key is in the preference dict, so the
  weather quick action passes the stored value to the weather lookup and never the
  default "Colombo"; while the location is unset that value is \<open>None\<close>.
\<close>

theorem quick_weather_stored_location:
  "(unset s ''location'' \<longrightarrow> handle_quick_action env s ''weather'' = get_weather env None)
   \<and> (reachable s \<longrightarrow>
        (\<exists>v. user_prefs s ''location'' = Some v
           \<and> handle_quick_action env s ''weather'' = get_weather env v))"
proof -
  have "user_prefs s ''location'' \<noteq> None" if "reachable s"
    using reachable_flow_inv [OF that]
    by (auto simp: flow_inv_def unset_def is_set_def split: option.splits)
  then show ?thesis
    by (auto simp: handle_quick_action_def prefs_get_def unset_def)
qed

theorem quick_weather_stored_location_witness:
  "reachable fresh_session \<and> unset fresh_session ''location''
   \<and> handle_quick_action sample_env fresh_session ''weather'' = get_weather sample_env None
   \<and> get_weather sample_env None \<noteq> get_weather sample_env (Some ''Colombo'')"
proof -
  have r: "reachable fresh_session" by (rule reachable.fresh)
  have u: "unset fresh_session ''location''" by (simp add: unset_def fresh_session_def)
  have "get_weather sample_env None \<noteq> get_weather sample_env (Some ''Colombo'')"
    by (simp add: get_weather_def sample_env_def weather_text_def try_bind_def
          sunny_payload_def str_opt_def)
  with r u quick_weather_stored_location [of fresh_session sample_env] show ?thesis by simp
qed

section \<open>Manual assertion of the name\<close>

lemma prefix_py_in: "prefix sep s \<Longrightarrow> py_in sep s"
  by (cases s) auto

lemma py_in_later: "py_in sub b \<Longrightarrow> py_in sub (a @ b)"
  by (induction a) simp_all

lemma split_from_absent: "\<not> py_in sep r \<Longrightarrow> split_from sep cur r = [cur @ r]"
  by (induction r arbitrary: cur) auto

lemma first_occurrence:
  assumes "\<not> py_in sep (pre @ butlast sep)" and "sep \<noteq> []"
  shows "split_from sep cur (pre @ sep @ rest) = (cur @ pre) # split_from sep [] rest"
  using assms
proof (induction pre arbitrary: cur)
  case Nil
  then show ?case by (cases sep) auto
next
  case (Cons c pre)
  have "\<not> prefix sep (c # pre @ sep @ rest)"
  proof
    assume p: "prefix sep (c # pre @ sep @ rest)"
    have "c # pre @ sep @ rest = (c # pre @ butlast sep) @ (last sep # rest)"
      using Cons.prems(2) by simp
    with p have "prefix sep ((c # pre @ butlast sep) @ (last sep # rest))" by simp
    moreover have "length sep \<le> length (c # pre @ butlast sep)" by simp
    ultimately have "prefix sep (c # pre @ butlast sep)"
      by (metis prefix_length_prefix prefixI)
    with Cons.prems(1) show False by simp
  qed
  moreover from Cons.prems(1) have "\<not> py_in sep (pre @ butlast sep)" by simp
  ultimately show ?case
    using Cons.IH [of "cur @ [c]"] Cons.prems(2) by simp
qed

lemma asserted_text_after:
  assumes "py_lower env p = pre @ sep @ rest" and "sep \<noteq> []"
    and "\<not> py_in sep (pre @ butlast sep)" and "\<not> py_in sep rest"
  shows "py_in sep (py_lower env p)" and "asserted_text env sep p = py_strip env rest"
proof -
  have "prefix sep (sep @ rest)" by simp
  then have "py_in sep (sep @ rest)" by (rule prefix_py_in)
  then show "py_in sep (py_lower env p)"
    by (simp add: assms(1) py_in_later)
  show "asserted_text env sep p = py_strip env rest"
    by (simp add: asserted_text_def py_split_def assms(1)
          first_occurrence [OF assms(3) assms(2)] split_from_absent [OF assms(4)])
qed

text \<open>
  C6. In every state with no pending question, the utterance "my name is Alex" sets the
  name to "alex". More generally, when the lowercased utterance holds the phrase once,
  anywhere, the stored name is the text that follows the phrase in the lowercased
  utterance, trimmed.
\<close>

theorem manual_name_assertion:
  assumes "awaiting_preference s = None"
  shows "generate_response env s ''my name is Alex'' =
           (Inr ''Preferences updated successfully!'',
            s\<lparr>user_prefs := (user_prefs s)(''name'' \<mapsto> Some ''alex'')\<rparr>)
       \<and> (py_lower env p = pre @ ''my name is'' @ rest
            \<and> \<not> py_in ''my name is'' (pre @ ''my name i'') \<and> \<not> py_in ''my name is'' rest
          \<longrightarrow> generate_response env s p =
                (Inr ''Preferences updated successfully!'',
                 s\<lparr>user_prefs := (user_prefs s)(''name'' \<mapsto> Some (py_strip env rest))\<rparr>))"
proof -
  have general: "generate_response env s q =
                (Inr ''Preferences updated successfully!'',
                 s\<lparr>user_prefs := (user_prefs s)(''name'' \<mapsto> Some (py_strip env r))\<rparr>)"
    if "py_lower env q = a @ ''my name is'' @ r"
      "\<not> py_in ''my name is'' (a @ ''my name i'')" "\<not> py_in ''my name is'' r"
    for q a r
  proof -
    have b: "butlast ''my name is'' = ''my name i''" by simp
    note t = asserted_text_after [OF that(1), unfolded b, OF _ that(2) that(3)]
    from t(1) have "py_in ''my name is'' (py_lower env q)" by simp
    with dispatch_manual [OF assms, of env q] t(2) show ?thesis by simp
  qed
  have "generate_response env s ''my name is Alex'' =
          (Inr ''Preferences updated successfully!'',
           s\<lparr>user_prefs := (user_prefs s)(''name'' \<mapsto> Some (py_strip env '' alex''))\<rparr>)"
    by (rule general [where a = "[]"]) (simp_all add: string_simps)
  then have "generate_response env s ''my name is Alex'' =
           (Inr ''Preferences updated successfully!'',
            s\<lparr>user_prefs := (user_prefs s)(''name'' \<mapsto> Some ''alex'')\<rparr>)"
    by (simp add: string_simps)
  with general show ?thesis by blast
qed

theorem manual_name_assertion_witness:
  "awaiting_preference colombo_session = None
   \<and> user_prefs (snd (generate_response sample_env colombo_session ''my name is Alex'')) ''name''
       = Some (Some ''alex'')
   \<and> user_prefs (snd (generate_response sample_env colombo_session ''Hi! My Name Is  Al Bo ''))
       ''name'' = Some (Some ''al bo'')"
proof -
  have a: "awaiting_preference colombo_session = None"
    by (simp add: colombo_session_def)
  have l: "py_lower sample_env ''Hi! My Name Is  Al Bo '' = ''hi! '' @ ''my name is'' @ ''  al bo ''"
    and f: "\<not> py_in ''my name is'' (''hi! '' @ ''my name i'')"
    and r: "\<not> py_in ''my name is'' ''  al bo ''"
    and t: "py_strip sample_env ''  al bo '' = ''al bo''"
    by (simp_all add: string_simps)
  from a l f r t
    manual_name_assertion [OF a, of sample_env "''Hi! My Name Is  Al Bo ''" "''hi! ''" "''  al bo ''"]
  show ?thesis by simp
qed

section \<open>The location of a weather request\<close>

text \<open>
  C3 says that the utterance "weather Paris" calls the weather lookup with "Paris".
  The override text is taken from the lowercased utterance: the lookup is called with
  "paris", and its report names that place.
\<close>

theorem weather_override_counterexample:
  "reachable colombo_session
   \<and> generate_response sample_env colombo_session ''weather Paris'' =
       (Inr (get_weather sample_env (Some ''paris'')), colombo_session)
   \<and> get_weather sample_env (Some ''paris'') \<noteq> get_weather sample_env (Some ''Paris'')"
proof -
  have "weather_location sample_env colombo_session ''weather Paris'' = Some ''paris''"
    by (simp add: weather_location_def string_simps)
  moreover have "generate_response sample_env colombo_session ''weather Paris'' =
      (Inr (get_weather sample_env (weather_location sample_env colombo_session ''weather Paris'')),
       colombo_session)"
    by (rule route_weather(2) [where n = "''Bob''" and l = "''Colombo''"])
       (simp_all add: colombo_session_def string_simps)
  moreover have "get_weather sample_env (Some ''paris'') \<noteq> get_weather sample_env (Some ''Paris'')"
    by (simp add: get_weather_def sample_env_def weather_text_def try_bind_def
          sunny_payload_def str_opt_def)
  ultimately show ?thesis
    using colombo_reachable by simp
qed

text \<open>
  C3, amended. With both preferences set, no pending question and no manual assertion
  phrase, an utterance containing "weather" in any letter case calls the weather lookup
  with the lowercased utterance from which every occurrence of "weather" is removed and
  the surrounding whitespace trimmed, or with the stored location when nothing is
  left. The utterance "weather" calls it with the stored location, and
  "weather Paris" with "paris".
\<close>

theorem weather_request_location:
  assumes "awaiting_preference s = None"
    and "user_prefs s ''name'' = Some (Some n)" and "user_prefs s ''location'' = Some (Some stored)"
  shows "(\<not> py_in ''my name is'' (py_lower env p) \<and> \<not> py_in ''set location to'' (py_lower env p)
          \<and> py_in ''weather'' (py_lower env p)
          \<longrightarrow> generate_response env s p =
                (Inr (get_weather env
                        (let location = py_strip env (py_replace (py_lower env p) ''weather'' [])
                         in if location = [] then Some stored else Some location)), s))
       \<and> generate_response env s ''weather'' = (Inr (get_weather env (Some stored)), s)
       \<and> generate_response env s ''weather Paris'' = (Inr (get_weather env (Some ''paris'')), s)"
proof -
  have loc: "weather_location env s q =
        (let location = py_strip env (py_replace (py_lower env q) ''weather'' [])
         in if location = [] then Some stored else Some location)" for q
    by (simp add: weather_location_def prefs_get_def assms(3) Let_def)
  have "generate_response env s ''weather'' =
      (Inr (get_weather env (weather_location env s ''weather'')), s)"
    by (rule route_weather(2) [OF assms]) (simp_all add: string_simps)
  moreover have "generate_response env s ''weather Paris'' =
      (Inr (get_weather env (weather_location env s ''weather Paris'')), s)"
    by (rule route_weather(2) [OF assms]) (simp_all add: string_simps)
  moreover have "weather_location env s ''weather'' = Some stored"
    by (simp add: loc string_simps Let_def)
  moreover have "weather_location env s ''weather Paris'' = Some ''paris''"
    by (simp add: loc string_simps Let_def)
  ultimately show ?thesis
    using route_weather(2) [OF assms, of env p] loc [of p] by simp
qed

theorem weather_request_location_witness:
  "awaiting_preference colombo_session = None
   \<and> user_prefs colombo_session ''name'' = Some (Some ''Bob'')
   \<and> user_prefs colombo_session ''location'' = Some (Some ''Colombo'')
   \<and> generate_response sample_env colombo_session ''What is the WEATHER in Oslo'' =
       (Inr (get_weather sample_env (Some ''what is the  in oslo'')), colombo_session)
   \<and> generate_response sample_env colombo_session ''weather'' =
       (Inr (get_weather sample_env (Some ''Colombo'')), colombo_session)"
proof -
  have a: "awaiting_preference colombo_session = None"
    and n: "user_prefs colombo_session ''name'' = Some (Some ''Bob'')"
    and l: "user_prefs colombo_session ''location'' = Some (Some ''Colombo'')"
    by (simp_all add: colombo_session_def)
  from a n l weather_request_location [OF a n l, of sample_env "''What is the WEATHER in Oslo''"]
  show ?thesis by (simp add: string_simps)
qed

section \<open>Which branches change the state\<close>

text \<open>
  In a session of the specification where the cursor is absent although a field is
  unset, the guard asks for that field again and sets the cursor to it. The program
  does not get into such a session.
\<close>

lemma guard_asks_again:
  assumes "valid_session s" and "route env s p = Guard"
  shows "next_unset s \<noteq> None"
    and "snd (generate_response env s p) = s\<lparr>awaiting_preference := next_unset s\<rparr>"
proof -
  show "next_unset s \<noteq> None"
    using assms(2) next_unset_guard [of s]
    by (auto simp: route_def dispatch_order_def split: if_splits)
  show "snd (generate_response env s p) = s\<lparr>awaiting_preference := next_unset s\<rparr>"
    using generate_response_dispatch [OF assms(1), of env p] assms(2) by simp
qed

lemma guard_never_fires: "flow_inv s \<Longrightarrow> route env s p \<noteq> Guard"
  by (auto simp: flow_inv_def route_def dispatch_order_def unset_def is_set_def
        split: option.splits if_splits)

text \<open>
  C9. In every conversation state, that is, every state the program reaches and more
  generally every state in one of the three stages of the setup flow, the router
  changes the preferences and the cursor only in the pending-preference and
  manual-assertion branches: the incomplete-preferences guard (which does not fire
  there), the weather, tasks or todo, who am i and help branches and the generative
  fallback leave the session exactly as it was.
\<close>

theorem state_frame:
  assumes "reachable s \<or> flow_inv s"
  shows "route env s p \<noteq> Guard
       \<and> (route env s p \<in> {Guard, Weather, Tasks, WhoAmI, Help, Fallback}
          \<longrightarrow> snd (generate_response env s p) = s
              \<and> user_prefs (snd (generate_response env s p)) = user_prefs s
              \<and> awaiting_preference (snd (generate_response env s p)) = awaiting_preference s)"
proof -
  from assms have f: "flow_inv s"
    using reachable_flow_inv by blast
  note g = guard_never_fires [OF f, of env p]
  have "snd (generate_response env s p) = s"
    if "route env s p \<in> {Guard, Weather, Tasks, WhoAmI, Help, Fallback}"
    using that g generate_response_dispatch [OF flow_inv_valid [OF f], of env p]
      commands_keep_state [of "route env s p" env s p]
    by auto
  with g show ?thesis by simp
qed

theorem state_frame_witness:
  "reachable colombo_session
   \<and> route sample_env colombo_session ''hello'' = Fallback
   \<and> snd (generate_response sample_env colombo_session ''hello'') = colombo_session
   \<and> route sample_env colombo_session ''what am I to do? HELP'' = Help
   \<and> snd (generate_response sample_env colombo_session ''what am I to do? HELP'') = colombo_session"
proof -
  note r = colombo_reachable
  have f: "route sample_env colombo_session ''hello'' = Fallback"
    and h: "route sample_env colombo_session ''what am I to do? HELP'' = Help"
    by (simp_all add: route_def dispatch_order_def session_simps string_simps)
  from r f h state_frame [of colombo_session sample_env "''hello''"]
    state_frame [of colombo_session sample_env "''what am I to do? HELP''"]
  show ?thesis by simp
qed

section \<open>Failures of the external calls\<close>

lemma get_weather_transport_failure:
  "weather_get env q = Inl e \<Longrightarrow> get_weather env q = ''Error getting weather: '' @ str_exn env e"
  by (simp add: get_weather_def try_bind_def)

lemma get_weather_bad_payload:
  "weather_get env q = Inr data \<Longrightarrow> weather_text env q data = Inl e \<Longrightarrow>
   get_weather env q = ''Error getting weather: '' @ str_exn env e"
  by (simp add: get_weather_def try_bind_def)

lemma weather_text_no_current:
  "map_of d ''error'' = None \<Longrightarrow> map_of d ''current'' = None \<Longrightarrow>
   weather_text env q (JObj d) = Inl (KeyError ''current'')"
  by (simp add: weather_text_def try_bind_def)

lemma weather_text_null: "weather_text env q JNull = Inl TypeError"
  by (simp add: weather_text_def try_bind_def)

lemma get_weather_provider_error:
  "weather_get env q = Inr (JObj d) \<Longrightarrow> map_of d ''error'' = Some (JObj err) \<Longrightarrow>
   map_of err ''message'' = Some message \<Longrightarrow>
   get_weather env q = ''Could not get weather: '' @ py_str env message"
  by (simp add: get_weather_def weather_text_def try_bind_def)

lemma get_tasks_transport_failure:
  "todoist_get env = Inl e \<Longrightarrow> get_tasks env = ''Error getting tasks: '' @ str_exn env e"
  by (simp add: get_tasks_def)

lemma get_tasks_status:
  "todoist_get env = Inr r \<Longrightarrow> status_code r \<noteq> 200 \<Longrightarrow>
   get_tasks env = ''Todoist API error: Status '' @ str_int (status_code r)"
  by (simp add: get_tasks_def)

lemma get_tasks_unparsable:
  "todoist_get env = Inr r \<Longrightarrow> status_code r = 200 \<Longrightarrow> json_result r = Inl e \<Longrightarrow>
   get_tasks env =
     (if is_ValueError e then ''Invalid response format from Todoist''
      else ''Error getting tasks: '' @ str_exn env e)"
  by (simp add: get_tasks_def)

lemma get_tasks_not_list:
  "todoist_get env = Inr r \<Longrightarrow> status_code r = 200 \<Longrightarrow> json_result r = Inr j \<Longrightarrow>
   \<forall>ts. j \<noteq> JArr ts \<Longrightarrow> get_tasks env = ''Unexpected response format from Todoist''"
  by (cases j) (simp_all add: get_tasks_def)

text \<open>Outside the sessions of the specification the router can raise.\<close>

lemma unknown_cursor_raises:
  assumes "user_prefs s ''name'' = Some (Some n)" and "user_prefs s ''location'' = Some (Some l)"
    and "awaiting_preference s = Some ''work hours''"
  shows "generate_response env s p = (Inl (UnboundLocalError ''response''), s)"
  using assms by (simp add: generate_response_def ask_preference_questions_def)

lemma missing_key_raises:
  assumes "user_prefs s ''name'' = None" and "awaiting_preference s = None"
    and "\<not> py_in ''my name is'' (py_lower env p)"
    and "\<not> py_in ''set location to'' (py_lower env p)"
  shows "generate_response env s p = (Inl (KeyError ''name''), s)"
  using assms by (simp add: generate_response_def ask_preference_questions_def)

lemma handler_returns:
  "\<exists>text. fst (branch_handler env s p b) = Inr text"
  by (cases b) (auto simp: Let_def split: sum.splits)

text \<open>
  C4. For every conversation state and utterance the router returns a text and never
  raises. The branches that call the weather provider, the task provider or the
  generative model leave the session as it was, whatever the call does, and every
  failure of the call becomes the text built for it: a weather request that fails, a
  weather payload that cannot be read (no \<open>current\<close> entry, not an object) or that
  reports an error; a task request that fails, a task response with another status
  than 200, with a body that is no JSON or cannot be parsed, or that is no list; a
  failed call of the generative model.
\<close>

theorem failures_become_text:
  assumes "valid_session s"
  shows "(\<exists>text. fst (generate_response env s p) = Inr text)
       \<and> (route env s p \<in> {Weather, Tasks, Fallback} \<longrightarrow> snd (generate_response env s p) = s)
       \<and> (route env s p = Weather \<and> weather_get env (weather_location env s p) = Inl e
          \<longrightarrow> generate_response env s p = (Inr (''Error getting weather: '' @ str_exn env e), s))
       \<and> (route env s p = Weather \<and> weather_get env (weather_location env s p) = Inr data
            \<and> weather_text env (weather_location env s p) data = Inl e
          \<longrightarrow> generate_response env s p = (Inr (''Error getting weather: '' @ str_exn env e), s))
       \<and> (route env s p = Weather \<and> weather_get env (weather_location env s p) = Inr (JObj d)
            \<and> map_of d ''error'' = None \<and> map_of d ''current'' = None
          \<longrightarrow> generate_response env s p =
                (Inr (''Error getting weather: '' @ str_exn env (KeyError ''current'')), s))
       \<and> (route env s p = Weather \<and> weather_get env (weather_location env s p) = Inr JNull
          \<longrightarrow> generate_response env s p =
                (Inr (''Error getting weather: '' @ str_exn env TypeError), s))
       \<and> (route env s p = Weather \<and> weather_get env (weather_location env s p) = Inr (JObj d)
            \<and> map_of d ''error'' = Some (JObj err) \<and> map_of err ''message'' = Some message
          \<longrightarrow> generate_response env s p =
                (Inr (''Could not get weather: '' @ py_str env message), s))
       \<and> (route env s p = Tasks \<and> todoist_get env = Inl e
          \<longrightarrow> generate_response env s p = (Inr (''Error getting tasks: '' @ str_exn env e), s))
       \<and> (route env s p = Tasks \<and> todoist_get env = Inr r \<and> status_code r \<noteq> 200
          \<longrightarrow> generate_response env s p =
                (Inr (''Todoist API error: Status '' @ str_int (status_code r)), s))
       \<and> (route env s p = Tasks \<and> todoist_get env = Inr r \<and> status_code r = 200
            \<and> json_result r = Inl (ValueError m)
          \<longrightarrow> generate_response env s p = (Inr ''Invalid response format from Todoist'', s))
       \<and> (route env s p = Tasks \<and> todoist_get env = Inr r \<and> status_code r = 200
            \<and> json_result r = Inl e \<and> \<not> is_ValueError e
          \<longrightarrow> generate_response env s p = (Inr (''Error getting tasks: '' @ str_exn env e), s))
       \<and> (route env s p = Tasks \<and> todoist_get env = Inr r \<and> status_code r = 200
            \<and> json_result r = Inr j \<and> (\<forall>ts. j \<noteq> JArr ts)
          \<longrightarrow> generate_response env s p = (Inr ''Unexpected response format from Todoist'', s))
       \<and> (route env s p = Fallback \<and> generate_content env p = Inl e
          \<longrightarrow> generate_response env s p =
                (Inr (''Sorry, I encountered an error: '' @ str_exn env e), s))"
proof -
  note d = generate_response_dispatch [OF assms, of env p]
  have returns: "\<exists>text. fst (generate_response env s p) = Inr text"
    unfolding d by (rule handler_returns)
  have frame: "snd (generate_response env s p) = s" if "route env s p \<in> {Weather, Tasks, Fallback}"
    unfolding d using that by (intro commands_keep_state) auto
  have weather: "generate_response env s p = (Inr (get_weather env (weather_location env s p)), s)"
    if "route env s p = Weather"
    using that by (simp add: d)
  have tasks: "generate_response env s p = (Inr (get_tasks env), s)" if "route env s p = Tasks"
    using that by (simp add: d)
  have fallback: "generate_response env s p =
                (Inr (''Sorry, I encountered an error: '' @ str_exn env e), s)"
    if "route env s p = Fallback" "generate_content env p = Inl e"
    using that by (simp add: d)
  show ?thesis
  proof (intro conjI impI)
    show "\<exists>text. fst (generate_response env s p) = Inr text" by (rule returns)
  qed (auto simp: frame weather tasks fallback get_weather_transport_failure
         get_weather_bad_payload weather_text_no_current weather_text_null
         get_weather_provider_error get_tasks_transport_failure get_tasks_status
         get_tasks_unparsable get_tasks_not_list is_ValueError_def)
qed


theorem failures_become_text_witness:
  "valid_session colombo_session
   \<and> generate_response sample_env colombo_session ''weather nowhere'' =
       (Inr ''Error getting weather: timed out'', colombo_session)
   \<and> generate_response sample_env colombo_session ''weather limbo'' =
       (Inr (''Error getting weather: '' @ [CHR 0x27] @ ''current'' @ [CHR 0x27]), colombo_session)
   \<and> generate_response sample_env colombo_session ''weather void'' =
       (Inr ''Error getting weather: unsupported'', colombo_session)
   \<and> generate_response sample_env colombo_session ''weather atlantis'' =
       (Inr ''Could not get weather: No matching location found.'', colombo_session)
   \<and> generate_response offline_env colombo_session ''show my tasks'' =
       (Inr ''Error getting tasks: connection refused'', colombo_session)
   \<and> generate_response busy_env colombo_session ''show my tasks'' =
       (Inr ''Todoist API error: Status 503'', colombo_session)
   \<and> generate_response garbled_env colombo_session ''show my tasks'' =
       (Inr ''Invalid response format from Todoist'', colombo_session)
   \<and> generate_response broken_env colombo_session ''show my tasks'' =
       (Inr ''Error getting tasks: decode failed'', colombo_session)
   \<and> generate_response wrapped_env colombo_session ''show my tasks'' =
       (Inr ''Unexpected response format from Todoist'', colombo_session)
   \<and> generate_response sample_env colombo_session ''hello'' =
       (Inr ''Sorry, I encountered an error: quota exceeded'', colombo_session)"
proof -
  have v: "valid_session colombo_session"
    by (simp add: session_simps)
  note envs = sample_env_def offline_env_def busy_env_def garbled_env_def broken_env_def
    wrapped_env_def
  have w: "route sample_env colombo_session ''weather nowhere'' = Weather"
    "route sample_env colombo_session ''weather limbo'' = Weather"
    "route sample_env colombo_session ''weather void'' = Weather"
    "route sample_env colombo_session ''weather atlantis'' = Weather"
    "route sample_env colombo_session ''hello'' = Fallback"
    by (simp_all add: route_def dispatch_order_def session_simps string_simps)
  have t: "route offline_env colombo_session ''show my tasks'' = Tasks"
    "route busy_env colombo_session ''show my tasks'' = Tasks"
    "route garbled_env colombo_session ''show my tasks'' = Tasks"
    "route broken_env colombo_session ''show my tasks'' = Tasks"
    "route wrapped_env colombo_session ''show my tasks'' = Tasks"
    by (simp_all add: route_def dispatch_order_def session_simps string_simps)
  have l: "weather_location sample_env colombo_session ''weather nowhere'' = Some ''nowhere''"
    "weather_location sample_env colombo_session ''weather limbo'' = Some ''limbo''"
    "weather_location sample_env colombo_session ''weather void'' = Some ''void''"
    "weather_location sample_env colombo_session ''weather atlantis'' = Some ''atlantis''"
    by (simp_all add: weather_location_def string_simps)
  have wg: "weather_get sample_env (Some ''nowhere'') = Inl (OtherException ''timed out'')"
    "weather_get sample_env (Some ''limbo'') = Inr (JObj [])"
    "weather_get sample_env (Some ''void'') = Inr JNull"
    "weather_get sample_env (Some ''atlantis'') =
       Inr (JObj [(''error'', JObj [(''code'', JInt 1006),
                             (''message'', JStr ''No matching location found.'')])])"
    "generate_content sample_env ''hello'' = Inl (OtherException ''quota exceeded'')"
    by (simp_all add: sample_env_def error_payload_def)
  have tg: "todoist_get offline_env = Inl (OtherException ''connection refused'')"
    "todoist_get busy_env = Inr \<lparr>status_code = 503, json_result = Inl (ValueError ''no body'')\<rparr>"
    "todoist_get garbled_env =
       Inr \<lparr>status_code = 200, json_result = Inl (ValueError ''Expecting value'')\<rparr>"
    "todoist_get broken_env =
       Inr \<lparr>status_code = 200, json_result = Inl (OtherException ''decode failed'')\<rparr>"
    "todoist_get wrapped_env =
       Inr \<lparr>status_code = 200, json_result = Inr (JObj [(''tasks'', JArr [])])\<rparr>"
    by (simp_all add: envs)
  have se: "str_exn sample_env (OtherException x) = x"
    "str_exn offline_env (OtherException x) = x" "str_exn broken_env (OtherException x) = x"
    "str_exn sample_env (KeyError k) = [CHR 0x27] @ k @ [CHR 0x27]"
    "str_exn sample_env TypeError = ''unsupported''" for x k
    by (simp_all add: envs)
  have c1: "generate_response sample_env colombo_session ''weather nowhere'' =
       (Inr ''Error getting weather: timed out'', colombo_session)"
    using failures_become_text [OF v, of sample_env "''weather nowhere''"
        "OtherException ''timed out''"] w l wg se
    by simp
  have c2: "generate_response sample_env colombo_session ''weather limbo'' =
       (Inr (''Error getting weather: '' @ [CHR 0x27] @ ''current'' @ [CHR 0x27]), colombo_session)"
    using failures_become_text [OF v, where env = sample_env and p = "''weather limbo''"
        and d = "[]"] w l wg se
    by simp
  have c3: "generate_response sample_env colombo_session ''weather void'' =
       (Inr ''Error getting weather: unsupported'', colombo_session)"
    using failures_become_text [OF v, of sample_env "''weather void''"] w l wg se
    by simp
  have c4: "generate_response sample_env colombo_session ''weather atlantis'' =
       (Inr ''Could not get weather: No matching location found.'', colombo_session)"
    using failures_become_text [OF v, where env = sample_env and p = "''weather atlantis''"
        and d = "[(''error'', JObj [(''code'', JInt 1006),
                             (''message'', JStr ''No matching location found.'')])]"
        and err = "[(''code'', JInt 1006), (''message'', JStr ''No matching location found.'')]"
        and message = "JStr ''No matching location found.''"] w l wg
    by simp
  have c5: "generate_response offline_env colombo_session ''show my tasks'' =
       (Inr ''Error getting tasks: connection refused'', colombo_session)"
    using failures_become_text [OF v, of offline_env "''show my tasks''"
        "OtherException ''connection refused''"] t tg se
    by simp
  have c6: "generate_response busy_env colombo_session ''show my tasks'' =
       (Inr ''Todoist API error: Status 503'', colombo_session)"
    using failures_become_text [OF v, where env = busy_env and p = "''show my tasks''"
        and r = "\<lparr>status_code = 503, json_result = Inl (ValueError ''no body'')\<rparr>"] t tg
    by (simp add: str_int_def str_nat.simps)
  have c7: "generate_response garbled_env colombo_session ''show my tasks'' =
       (Inr ''Invalid response format from Todoist'', colombo_session)"
    using failures_become_text [OF v, where env = garbled_env and p = "''show my tasks''"
        and r = "\<lparr>status_code = 200, json_result = Inl (ValueError ''Expecting value'')\<rparr>"
        and m = "''Expecting value''"] t tg
    by simp
  have c8: "generate_response broken_env colombo_session ''show my tasks'' =
       (Inr ''Error getting tasks: decode failed'', colombo_session)"
    using failures_become_text [OF v, where env = broken_env and p = "''show my tasks''"
        and r = "\<lparr>status_code = 200, json_result = Inl (OtherException ''decode failed'')\<rparr>"
        and e = "OtherException ''decode failed''"] t tg se
    by (simp add: is_ValueError_def)
  have c9: "generate_response wrapped_env colombo_session ''show my tasks'' =
       (Inr ''Unexpected response format from Todoist'', colombo_session)"
    using failures_become_text [OF v, where env = wrapped_env and p = "''show my tasks''"
        and r = "\<lparr>status_code = 200, json_result = Inr (JObj [(''tasks'', JArr [])])\<rparr>"
        and j = "JObj [(''tasks'', JArr [])]"] t tg
    by simp
  have c10: "generate_response sample_env colombo_session ''hello'' =
       (Inr ''Sorry, I encountered an error: quota exceeded'', colombo_session)"
    using failures_become_text [OF v, of sample_env "''hello''"
        "OtherException ''quota exceeded''"] w wg se
    by simp
  from v c1 c2 c3 c4 c5 c6 c7 c8 c9 c10 show ?thesis by simp
qed

section \<open>The task list\<close>

lemma collect_tasks_kept:
  "collect_tasks env ts acc =
     acc @ map (\<lambda>c. ''- '' @ py_str env c) (List.map_filter task_content ts)"
  by (induction env ts acc rule: collect_tasks.induct)
     (simp_all add: List.map_filter_simps task_content_def split: option.splits)

lemma get_tasks_list:
  assumes "todoist_get env = Inr r" and "status_code r = 200" and "json_result r = Inr (JArr tasks)"
  shows "get_tasks env =
           (if kept_tasks tasks = [] then ''No valid tasks found in your Todoist!''
            else ''Here are your upcoming tasks:'' @ nl
                 @ py_join nl (map (\<lambda>c. ''- '' @ py_str env c) (kept_tasks tasks)))"
  using assms by (simp add: get_tasks_def collect_tasks_kept kept_tasks_def Let_def)

lemma length_kept_tasks: "length (kept_tasks tasks) \<le> 5"
proof -
  have "length (List.map_filter f xs) \<le> length xs" for f :: "json \<Rightarrow> json option" and xs
    by (induction xs) (simp_all add: List.map_filter_simps split: option.splits)
  from this [of task_content "take 5 tasks"] show ?thesis
    by (simp add: kept_tasks_def)
qed

text \<open>
  C5. When the task provider answers with status 200 and a list, the task lookup takes
  the first five entries at most, keeps the \<open>content\<close> of those that are records with
  such a field and skips the others; it returns the "no valid tasks" text when nothing
  is kept, and else the header line followed by one bullet per kept task. The three
  sample entries give the two bullets "Buy milk" and "Call Bob", and the empty list
  gives the "no valid tasks" text.
\<close>

theorem task_list_format:
  assumes "todoist_get env = Inr r" and "status_code r = 200" and "json_result r = Inr (JArr tasks)"
  shows "get_tasks env =
           (if kept_tasks tasks = [] then ''No valid tasks found in your Todoist!''
            else ''Here are your upcoming tasks:'' @ nl
                 @ py_join nl (map (\<lambda>c. ''- '' @ py_str env c) (kept_tasks tasks)))
       \<and> length (kept_tasks tasks) \<le> 5
       \<and> (JArr tasks = sample_tasks
          \<longrightarrow> get_tasks env = ''Here are your upcoming tasks:'' @ nl @ ''- Buy milk'' @ nl @ ''- Call Bob'')
       \<and> (tasks = [] \<longrightarrow> get_tasks env = ''No valid tasks found in your Todoist!'')"
proof -
  note g = get_tasks_list [OF assms]
  have "get_tasks env = ''Here are your upcoming tasks:'' @ nl @ ''- Buy milk'' @ nl @ ''- Call Bob''"
    if "JArr tasks = sample_tasks"
    using that unfolding g
    by (auto simp: sample_tasks_def kept_tasks_def task_content_def List.map_filter_simps)
  moreover have "get_tasks env = ''No valid tasks found in your Todoist!''" if "tasks = []"
    using that unfolding g by (simp add: kept_tasks_def List.map_filter_simps)
  ultimately show ?thesis
    using g length_kept_tasks by blast
qed

theorem task_list_format_witness:
  "get_tasks sample_env = ''Here are your upcoming tasks:'' @ nl @ ''- Buy milk'' @ nl @ ''- Call Bob''
   \<and> get_tasks empty_tasks_env = ''No valid tasks found in your Todoist!''"
proof -
  obtain ts where ts: "JArr ts = sample_tasks"
    by (simp add: sample_tasks_def)
  have s: "todoist_get sample_env = Inr \<lparr>status_code = 200, json_result = Inr (JArr ts)\<rparr>"
    by (simp add: sample_env_def ts)
  have e: "todoist_get empty_tasks_env = Inr \<lparr>status_code = 200, json_result = Inr (JArr [])\<rparr>"
    by (simp add: empty_tasks_env_def)
  have c: "status_code \<lparr>status_code = 200, json_result = j\<rparr> = 200"
    and j: "json_result \<lparr>status_code = 200, json_result = j\<rparr> = j" for j
    by simp_all
  from task_list_format [OF s c j] task_list_format [OF e c j] ts show ?thesis
    by blast
qed

section \<open>The weather report\<close>

lemma py_in_append: "py_in sub b \<Longrightarrow> py_in sub (a @ b)"
  by (induction a) simp_all

lemma py_in_Cons: "py_in sub b \<Longrightarrow> py_in sub (c # b)"
  by simp

lemma weather_text_success:
  assumes "map_of d ''error'' = None" and "map_of d ''current'' = Some (JObj cur)"
    and "map_of cur ''condition'' = Some (JObj cond)" and "map_of cond ''text'' = Some ctext"
    and "map_of cur ''temp_c'' = Some temp_c" and "map_of cur ''temp_f'' = Some temp_f"
    and "map_of cur ''humidity'' = Some humidity"
    and "map_of cur ''wind_kph'' = Some wind_kph" and "map_of cur ''wind_mph'' = Some wind_mph"
  shows "weather_text env q (JObj d) =
           Inr (emoji_weather @ '' Weather in '' @ str_opt q @ '':'' @ nl @ nl
              @ emoji_cloud @ '' Condition: '' @ py_str env ctext @ nl
              @ nl @ emoji_thermometer @ '' Temperature: '' @ py_str env temp_c
              @ degree_sign @ ''C ('' @ py_str env temp_f @ degree_sign @ ''F)'' @ nl
              @ nl @ emoji_droplet @ '' Humidity: '' @ py_str env humidity @ ''%'' @ nl
              @ nl @ emoji_wind @ '' Wind: '' @ py_str env wind_kph @ '' km/h (''
              @ py_str env wind_mph @ '' mph)'' @ nl
              @ nl @ emoji_sun @ '' UV Index: ''
              @ (case map_of cur ''uv'' of None \<Rightarrow> ''N/A'' | Some uv \<Rightarrow> py_str env uv))"
  using assms by (simp add: weather_text_def try_bind_def split: option.splits)

lemma weather_text_error:
  assumes "map_of d ''error'' = Some (JObj err)" and "map_of err ''message'' = Some message"
  shows "weather_text env q (JObj d) = Inr (''Could not get weather: '' @ py_str env message)"
  using assms by (simp add: weather_text_def try_bind_def)

lemma sunny_report:
  "weather_text env q sunny_payload =
     Inr (emoji_weather @ '' Weather in '' @ str_opt q @ '':'' @ nl @ nl
        @ emoji_cloud @ '' Condition: Sunny'' @ nl
        @ nl @ emoji_thermometer @ '' Temperature: 25'' @ degree_sign @ ''C (77''
        @ degree_sign @ ''F)'' @ nl
        @ nl @ emoji_droplet @ '' Humidity: 40%'' @ nl
        @ nl @ emoji_wind @ '' Wind: 10 km/h (6.2 mph)'' @ nl
        @ nl @ emoji_sun @ '' UV Index: 5'')"
  by (simp add: sunny_payload_def weather_text_def try_bind_def str_int_def str_nat.simps)

lemma sunny_values:
  "py_in v (emoji_cloud @ '' Condition: Sunny'' @ nl
        @ nl @ emoji_thermometer @ '' Temperature: 25'' @ degree_sign @ ''C (77''
        @ degree_sign @ ''F)'' @ nl
        @ nl @ emoji_droplet @ '' Humidity: 40%'' @ nl
        @ nl @ emoji_wind @ '' Wind: 10 km/h (6.2 mph)'' @ nl
        @ nl @ emoji_sun @ '' UV Index: 5'')"
  if "v \<in> set [''Sunny'', ''25'', ''77'', ''40'', ''10'', ''6.2'', ''5'']"
  using that by auto


text \<open>
  C8. When the provider's answer has no error entry and holds the condition text, both
  temperatures, the humidity and both wind speeds, the weather lookup returns the
  multi-line summary showing them and the UV index, or "N/A" when the answer has no
  \<open>uv\<close> entry. For the sample payload the summary contains "Sunny", "25", "77", "40",
  "10", "6.2" and "5". When the answer has an error entry with a message, the lookup
  returns a text that embeds the message.
\<close>

theorem weather_report_format:
  "(weather_get env q = Inr (JObj d) \<and> map_of d ''error'' = None
      \<and> map_of d ''current'' = Some (JObj cur)
      \<and> map_of cur ''condition'' = Some (JObj cond) \<and> map_of cond ''text'' = Some ctext
      \<and> map_of cur ''temp_c'' = Some temp_c \<and> map_of cur ''temp_f'' = Some temp_f
      \<and> map_of cur ''humidity'' = Some humidity
      \<and> map_of cur ''wind_kph'' = Some wind_kph \<and> map_of cur ''wind_mph'' = Some wind_mph
    \<longrightarrow> get_weather env q =
          emoji_weather @ '' Weather in '' @ str_opt q @ '':'' @ nl @ nl
          @ emoji_cloud @ '' Condition: '' @ py_str env ctext @ nl
          @ nl @ emoji_thermometer @ '' Temperature: '' @ py_str env temp_c
          @ degree_sign @ ''C ('' @ py_str env temp_f @ degree_sign @ ''F)'' @ nl
          @ nl @ emoji_droplet @ '' Humidity: '' @ py_str env humidity @ ''%'' @ nl
          @ nl @ emoji_wind @ '' Wind: '' @ py_str env wind_kph @ '' km/h (''
          @ py_str env wind_mph @ '' mph)'' @ nl
          @ nl @ emoji_sun @ '' UV Index: ''
          @ (case map_of cur ''uv'' of None \<Rightarrow> ''N/A'' | Some uv \<Rightarrow> py_str env uv))
   \<and> (weather_get env q = Inr sunny_payload
    \<longrightarrow> get_weather env q =
          emoji_weather @ '' Weather in '' @ str_opt q @ '':'' @ nl @ nl
          @ emoji_cloud @ '' Condition: Sunny'' @ nl
          @ nl @ emoji_thermometer @ '' Temperature: 25'' @ degree_sign @ ''C (77''
          @ degree_sign @ ''F)'' @ nl
          @ nl @ emoji_droplet @ '' Humidity: 40%'' @ nl
          @ nl @ emoji_wind @ '' Wind: 10 km/h (6.2 mph)'' @ nl
          @ nl @ emoji_sun @ '' UV Index: 5''
        \<and> py_in ''Sunny'' (get_weather env q) \<and> py_in ''25'' (get_weather env q)
        \<and> py_in ''77'' (get_weather env q) \<and> py_in ''40'' (get_weather env q)
        \<and> py_in ''10'' (get_weather env q) \<and> py_in ''6.2'' (get_weather env q)
        \<and> py_in ''5'' (get_weather env q))
   \<and> (weather_get env q = Inr (JObj d) \<and> map_of d ''error'' = Some (JObj err)
      \<and> map_of err ''message'' = Some message
    \<longrightarrow> get_weather env q = ''Could not get weather: '' @ py_str env message)"
proof (intro conjI impI)
  assume "weather_get env q = Inr (JObj d) \<and> map_of d ''error'' = None
      \<and> map_of d ''current'' = Some (JObj cur)
      \<and> map_of cur ''condition'' = Some (JObj cond) \<and> map_of cond ''text'' = Some ctext
      \<and> map_of cur ''temp_c'' = Some temp_c \<and> map_of cur ''temp_f'' = Some temp_f
      \<and> map_of cur ''humidity'' = Some humidity
      \<and> map_of cur ''wind_kph'' = Some wind_kph \<and> map_of cur ''wind_mph'' = Some wind_mph"
  then show "get_weather env q =
          emoji_weather @ '' Weather in '' @ str_opt q @ '':'' @ nl @ nl
          @ emoji_cloud @ '' Condition: '' @ py_str env ctext @ nl
          @ nl @ emoji_thermometer @ '' Temperature: '' @ py_str env temp_c
          @ degree_sign @ ''C ('' @ py_str env temp_f @ degree_sign @ ''F)'' @ nl
          @ nl @ emoji_droplet @ '' Humidity: '' @ py_str env humidity @ ''%'' @ nl
          @ nl @ emoji_wind @ '' Wind: '' @ py_str env wind_kph @ '' km/h (''
          @ py_str env wind_mph @ '' mph)'' @ nl
          @ nl @ emoji_sun @ '' UV Index: ''
          @ (case map_of cur ''uv'' of None \<Rightarrow> ''N/A'' | Some uv \<Rightarrow> py_str env uv)"
    using weather_text_success [of d cur cond ctext temp_c temp_f humidity wind_kph wind_mph env q]
    by (simp add: get_weather_def try_bind_def)
next
  assume "weather_get env q = Inr (JObj d) \<and> map_of d ''error'' = Some (JObj err)
      \<and> map_of err ''message'' = Some message"
  then show "get_weather env q = ''Could not get weather: '' @ py_str env message"
    using weather_text_error [of d err message env q]
    by (simp add: get_weather_def try_bind_def)
next
  assume sunny: "weather_get env q = Inr sunny_payload"
  then have r: "get_weather env q =
          emoji_weather @ '' Weather in '' @ str_opt q @ '':'' @ nl @ nl
          @ (emoji_cloud @ '' Condition: Sunny'' @ nl
          @ nl @ emoji_thermometer @ '' Temperature: 25'' @ degree_sign @ ''C (77''
          @ degree_sign @ ''F)'' @ nl
          @ nl @ emoji_droplet @ '' Humidity: 40%'' @ nl
          @ nl @ emoji_wind @ '' Wind: 10 km/h (6.2 mph)'' @ nl
          @ nl @ emoji_sun @ '' UV Index: 5'')"
    by (simp add: get_weather_def try_bind_def sunny_report)
  then show "get_weather env q =
          emoji_weather @ '' Weather in '' @ str_opt q @ '':'' @ nl @ nl
          @ emoji_cloud @ '' Condition: Sunny'' @ nl
          @ nl @ emoji_thermometer @ '' Temperature: 25'' @ degree_sign @ ''C (77''
          @ degree_sign @ ''F)'' @ nl
          @ nl @ emoji_droplet @ '' Humidity: 40%'' @ nl
          @ nl @ emoji_wind @ '' Wind: 10 km/h (6.2 mph)'' @ nl
          @ nl @ emoji_sun @ '' UV Index: 5''"
    by simp
  have c: "py_in v (get_weather env q)"
    if "v \<in> set [''Sunny'', ''25'', ''77'', ''40'', ''10'', ''6.2'', ''5'']" for v
    unfolding r
    by (intro py_in_append py_in_Cons sunny_values that)
  show "py_in ''Sunny'' (get_weather env q)" by (rule c) simp
  show "py_in ''25'' (get_weather env q)" by (rule c) simp
  show "py_in ''77'' (get_weather env q)" by (rule c) simp
  show "py_in ''40'' (get_weather env q)" by (rule c) simp
  show "py_in ''10'' (get_weather env q)" by (rule c) simp
  show "py_in ''6.2'' (get_weather env q)" by (rule c) simp
  show "py_in ''5'' (get_weather env q)" by (rule c) simp
qed


theorem weather_report_format_witness:
  "py_in ''Sunny'' (get_weather sample_env (Some ''Colombo''))
   \<and> py_in ''6.2'' (get_weather sample_env (Some ''Colombo''))
   \<and> get_weather sample_env (Some ''oslo'') =
        emoji_weather @ '' Weather in oslo:'' @ nl @ nl
        @ emoji_cloud @ '' Condition: Mist'' @ nl
        @ nl @ emoji_thermometer @ '' Temperature: 8'' @ degree_sign @ ''C (46.4''
        @ degree_sign @ ''F)'' @ nl
        @ nl @ emoji_droplet @ '' Humidity: 93%'' @ nl
        @ nl @ emoji_wind @ '' Wind: 3.6 km/h (2.2 mph)'' @ nl
        @ nl @ emoji_sun @ '' UV Index: N/A''
   \<and> get_weather sample_env (Some ''atlantis'') =
        ''Could not get weather: No matching location found.''"
proof -
  have sunny: "weather_get sample_env (Some ''Colombo'') = Inr sunny_payload"
    by (simp add: sample_env_def)
  have oslo: "weather_get sample_env (Some ''oslo'') =
      Inr (JObj [(''current'',
            JObj [(''condition'', JObj [(''text'', JStr ''Mist'')]),
                  (''temp_c'', JInt 8), (''temp_f'', JFloat ''46.4''), (''humidity'', JInt 93),
                  (''wind_kph'', JFloat ''3.6''), (''wind_mph'', JFloat ''2.2'')])])"
    by (simp add: sample_env_def no_uv_payload_def)
  have atlantis: "weather_get sample_env (Some ''atlantis'') =
      Inr (JObj [(''error'', JObj [(''code'', JInt 1006),
                             (''message'', JStr ''No matching location found.'')])])"
    by (simp add: sample_env_def error_payload_def)
  have a: "py_in ''Sunny'' (get_weather sample_env (Some ''Colombo''))
     \<and> py_in ''6.2'' (get_weather sample_env (Some ''Colombo''))"
    using sunny weather_report_format [where env = sample_env and q = "Some ''Colombo''"]
    by blast
  have b: "get_weather sample_env (Some ''oslo'') =
        emoji_weather @ '' Weather in oslo:'' @ nl @ nl
        @ emoji_cloud @ '' Condition: Mist'' @ nl
        @ nl @ emoji_thermometer @ '' Temperature: 8'' @ degree_sign @ ''C (46.4''
        @ degree_sign @ ''F)'' @ nl
        @ nl @ emoji_droplet @ '' Humidity: 93%'' @ nl
        @ nl @ emoji_wind @ '' Wind: 3.6 km/h (2.2 mph)'' @ nl
        @ nl @ emoji_sun @ '' UV Index: N/A''"
    using oslo
      weather_report_format [where env = sample_env and q = "Some ''oslo''"
        and d = "[(''current'',
            JObj [(''condition'', JObj [(''text'', JStr ''Mist'')]),
                  (''temp_c'', JInt 8), (''temp_f'', JFloat ''46.4''), (''humidity'', JInt 93),
                  (''wind_kph'', JFloat ''3.6''), (''wind_mph'', JFloat ''2.2'')])]"
        and cur = "[(''condition'', JObj [(''text'', JStr ''Mist'')]),
                  (''temp_c'', JInt 8), (''temp_f'', JFloat ''46.4''), (''humidity'', JInt 93),
                  (''wind_kph'', JFloat ''3.6''), (''wind_mph'', JFloat ''2.2'')]"
        and cond = "[(''text'', JStr ''Mist'')]" and ctext = "JStr ''Mist''"
        and temp_c = "JInt 8" and temp_f = "JFloat ''46.4''" and humidity = "JInt 93"
        and wind_kph = "JFloat ''3.6''" and wind_mph = "JFloat ''2.2''"]
    by (simp add: str_opt_def str_int_def str_nat.simps)
  have c: "get_weather sample_env (Some ''atlantis'') =
        ''Could not get weather: No matching location found.''"
    using atlantis
      weather_report_format [where env = sample_env and q = "Some ''atlantis''"
        and d = "[(''error'', JObj [(''code'', JInt 1006),
                             (''message'', JStr ''No matching location found.'')])]"
        and err = "[(''code'', JInt 1006), (''message'', JStr ''No matching location found.'')]"
        and message = "JStr ''No matching location found.''"]
    by simp
  from a b c show ?thesis by blast
qed

end
